theory Spec2Isabelle
  imports Complex_Main
begin

section \<open>Voice mode of AIPex: data model\<close>

text \<open>
  The development embeds the voice subsystem of the extension:
  the hook \<^verbatim>\<open>useVoiceMode\<close> (use-voice-mode.ts), the class \<^verbatim>\<open>AudioManager\<close>
  and the component \<^verbatim>\<open>VoiceMode\<close> (index.tsx). Every callback of the source is a
  function from session to session; the browser (timers, animation frames, the
  speech engines, the microphone) is part of the session, and what the browser
  decides (an amplitude, whether the microphone is granted, when a timer fires)
  is an argument or an event.

  Amplitudes are JavaScript numbers, that is binary64 values, and the code adds,
  divides and compares them in binary64; so does the model (next section).
  JavaScript strings are lists of UTF-16 code units.
\<close>

datatype VoiceState = Idle | Listening | Speaking | Processing

type_synonym jsstring = "nat list"

text \<open>An Isabelle string literal as a JavaScript string (ASCII only).\<close>

definition js :: "string \<Rightarrow> jsstring" where
  "js cs = map of_char cs"

text \<open>\<^verbatim>\<open>VoiceModeConfig\<close> (types.ts): the three callbacks are optional, so the
  configuration records whether each is present; a call \<^verbatim>\<open>config.onX?.(v)\<close> is logged
  in the session when it is.\<close>

record VoiceModeConfig =
  onTextRecognized :: bool
  onSpeechComplete :: bool
  onError :: bool
  language :: "string option"
  continuous :: "bool option"

text \<open>\<^verbatim>\<open>SpeechRecognitionResult\<close> (types.ts).\<close>

record SpeechRecognitionResult =
  r_transcript :: jsstring
  r_isFinal :: bool
  r_confidence :: real

section \<open>JavaScript numbers\<close>

text \<open>
  A JavaScript number is a binary64 value: a real with 53 significant bits (fewer
  in the subnormal range), an infinity, or NaN. The type below has a value for every
  real; the binary64 values among them are those that \<open>round64\<close> leaves as they are.
  The levels of the analyser are such values (\<open>normalized\<close>, below), and what is
  proved of a level is proved for every value of the type. The two zeros are one
  value here: this code never divides by a level nor tells the zeros apart.
\<close>

datatype number = Finite real | PosInfinity | NegInfinity | NaN

text \<open>\<open>pow2 e\<close> is 2 to the power \<open>e\<close>. The exponent of a real \<open>x\<close> is the \<open>e\<close>
  between -1022 and 1023 with \<open>pow2 e \<le> \<bar>x\<bar> < pow2 (e + 1)\<close>, searched downwards from
  1023; it is -1022 for zero and the subnormal range, and 1023 beyond the largest
  binade.\<close>

definition pow2 :: "int \<Rightarrow> real" where
  "pow2 e = (if 0 \<le> e then 2 ^ nat e else 1 / 2 ^ nat (- e))"

fun exponentFrom :: "nat \<Rightarrow> int \<Rightarrow> real \<Rightarrow> int" where
  "exponentFrom 0 e x = e"
| "exponentFrom (Suc n) e x = (if pow2 e \<le> x then e else exponentFrom n (e - 1) x)"

definition exponent :: "real \<Rightarrow> int" where
  "exponent x = exponentFrom 2045 1023 \<bar>x\<bar>"

text \<open>Rounding to the nearest integer, ties to the even one; and rounding a real to
  binary64 (round to nearest, ties to even, the mode of every JavaScript operation):
  to the nearest multiple of the unit in the last place of its binade, and to an
  infinity when that reaches \<open>pow2 1024\<close>.\<close>

definition roundHalfEven :: "real \<Rightarrow> int" where
  "roundHalfEven q =
     (let f = \<lfloor>q\<rfloor>; d = q - of_int f
      in if d < 1 / 2 then f else if 1 / 2 < d then f + 1 else if even f then f else f + 1)"

definition round64 :: "real \<Rightarrow> number" where
  "round64 x =
     (let ulp = pow2 (exponent x - 52);
          r = of_int (roundHalfEven (x / ulp)) * ulp
      in if pow2 1024 \<le> r then PosInfinity
         else if r \<le> - pow2 1024 then NegInfinity
         else Finite r)"

text \<open>\<^verbatim>\<open>a + b\<close>; \<^verbatim>\<open>a / n\<close> for a count \<open>n\<close> (the length of an array, or 1: an
  integer that binary64 holds exactly); \<^verbatim>\<open>a < b\<close> and \<^verbatim>\<open>a > b\<close>, false when either
  side is NaN; \<^verbatim>\<open>Math.max\<close> and \<^verbatim>\<open>Math.min\<close>, NaN when either argument is.\<close>

fun jsAdd :: "number \<Rightarrow> number \<Rightarrow> number" where
  "jsAdd (Finite a) (Finite b) = round64 (a + b)"
| "jsAdd NaN b = NaN"
| "jsAdd a NaN = NaN"
| "jsAdd PosInfinity NegInfinity = NaN"
| "jsAdd NegInfinity PosInfinity = NaN"
| "jsAdd PosInfinity b = PosInfinity"
| "jsAdd a PosInfinity = PosInfinity"
| "jsAdd NegInfinity b = NegInfinity"
| "jsAdd a NegInfinity = NegInfinity"

fun jsDivide :: "number \<Rightarrow> nat \<Rightarrow> number" where
  "jsDivide (Finite a) n =
     (if n = 0 then (if a = 0 then NaN else if 0 < a then PosInfinity else NegInfinity)
      else round64 (a / real n))"
| "jsDivide NaN n = NaN"
| "jsDivide a n = a"

fun jsLess :: "number \<Rightarrow> number \<Rightarrow> bool" where
  "jsLess (Finite a) (Finite b) = (a < b)"
| "jsLess NaN b = False"
| "jsLess a NaN = False"
| "jsLess a NegInfinity = False"
| "jsLess PosInfinity b = False"
| "jsLess NegInfinity b = True"
| "jsLess a PosInfinity = True"

definition jsGreater :: "number \<Rightarrow> number \<Rightarrow> bool" where
  "jsGreater a b = jsLess b a"

definition jsMax :: "number \<Rightarrow> number \<Rightarrow> number" where
  "jsMax a b = (if a = NaN \<or> b = NaN then NaN else if jsLess a b then b else a)"

definition jsMin :: "number \<Rightarrow> number \<Rightarrow> number" where
  "jsMin a b = (if a = NaN \<or> b = NaN then NaN else if jsLess b a then b else a)"

section \<open>The session\<close>

text \<open>What \<^verbatim>\<open>navigator.mediaDevices.getUserMedia\<close> answers: a rejection with its
  message, or a stream; with the stream comes the level that the first, synchronous
  run of \<^verbatim>\<open>analyze\<close> reads from the analyser.\<close>

datatype MicOutcome = Denied string | Granted number

record session =
  \<comment> \<open>React state of useVoiceMode\<close>
  voiceState :: VoiceState
  transcript :: jsstring
  isInitialized :: bool
  error :: "string option"
  \<comment> \<open>refs of useVoiceMode\<close>
  audioManagerRef :: bool
  particleSystemRef :: "number option"
  lastFinalTranscriptRef :: jsstring
  voiceStateRef :: VoiceState
  audioLevelHistoryRef :: "number list"
  stateChangeTimerRef :: "nat option"
  \<comment> \<open>fields of AudioManager\<close>
  audioContext :: "nat option"
  analyser :: bool
  microphone :: bool
  recognition :: "nat option"
  frequencyData :: bool
  animationId :: "nat option"
  stream :: "nat option"
  \<comment> \<open>the browser\<close>
  timers :: "(nat \<times> nat) list"
  frames :: "nat list"
  nextHandle :: nat
  openContexts :: "nat list"
  liveStreams :: "nat list"
  micConnected :: bool
  recognizers :: "(nat \<times> bool) list"
  started :: "nat list"
  utterances :: "jsstring list"
  getUserMediaCalls :: nat
  unhandled :: "string list"
  \<comment> \<open>calls made to the host's callbacks\<close>
  textRecognizedCalls :: "jsstring list"
  errorCalls :: "string list"
  speechCompleteCalls :: nat
  \<comment> \<open>state of the VoiceMode component\<close>
  recognizedText :: jsstring
  pendingResponse :: bool
  voiceEnabled :: bool
  micEnabled :: bool
  submitted :: "jsstring list"

text \<open>
  Reading of the fields. \<open>audioManagerRef\<close> is whether the ref holds the
  AudioManager (its fields are the next seven). \<open>particleSystemRef\<close> is \<open>None\<close>
  for null and otherwise the uniform \<^verbatim>\<open>uFrequency\<close> of the particle system.
  \<open>timers\<close> are the pending \<^verbatim>\<open>setTimeout\<close> entries of the debounce callback
  (handle, delay in ms); \<open>frames\<close> the pending \<^verbatim>\<open>requestAnimationFrame\<close> handles;
  handles are positive and fresh (\<open>nextHandle\<close>). \<open>recognizers\<close> lists every
  recognition object created with the \<^verbatim>\<open>continuous\<close> its \<^verbatim>\<open>onend\<close> closure
  captured; \<open>started\<close> are the objects that are running; \<open>utterances\<close> is the
  synthesis queue; \<open>unhandled\<close> collects errors nothing catches.
\<close>

definition initial :: session where
  "initial = \<lparr> voiceState = Idle, transcript = [], isInitialized = False, error = None,
     audioManagerRef = False, particleSystemRef = None, lastFinalTranscriptRef = [],
     voiceStateRef = Idle, audioLevelHistoryRef = [], stateChangeTimerRef = None,
     audioContext = None, analyser = False, microphone = False, recognition = None,
     frequencyData = False, animationId = None, stream = None,
     timers = [], frames = [], nextHandle = 1, openContexts = [], liveStreams = [],
     micConnected = False, recognizers = [], started = [], utterances = [],
     getUserMediaCalls = 0, unhandled = [],
     textRecognizedCalls = [], errorCalls = [], speechCompleteCalls = 0,
     recognizedText = [], pendingResponse = False, voiceEnabled = True, micEnabled = True,
     submitted = [] \<rparr>"

section \<open>useVoiceMode: voice-activity detection\<close>

text \<open>The literals \<^verbatim>\<open>0.10\<close> and \<^verbatim>\<open>0.03\<close> denote the binary64 values nearest to
  them.\<close>

definition ENTER_THRESHOLD :: number where
  "ENTER_THRESHOLD = round64 0.10"

definition EXIT_THRESHOLD :: number where
  "EXIT_THRESHOLD = round64 0.03"

text \<open>\<^verbatim>\<open>history.reduce((a, b) => a + b, 0) / Math.max(history.length, 1)\<close>: the sum
  is taken from the left, starting from 0, each addition rounded; then one division.\<close>

definition average :: "number list \<Rightarrow> number" where
  "average h = jsDivide (foldl jsAdd (Finite 0) h) (max (length h) 1)"

text \<open>\<^verbatim>\<open>history.push(level); if (history.length > 5) history.shift()\<close>\<close>

definition pushLevel :: "number \<Rightarrow> number list \<Rightarrow> number list" where
  "pushLevel level h = (let h' = h @ [level] in if length h' > 5 then tl h' else h')"

text \<open>\<^verbatim>\<open>setTimeout\<close> of the debounce callback, returning the handle, and
  \<^verbatim>\<open>clearTimeout\<close>.\<close>

definition setTimeout :: "nat \<Rightarrow> session \<Rightarrow> nat \<times> session" where
  "setTimeout delay s =
     (nextHandle s, s\<lparr>timers := timers s @ [(nextHandle s, delay)], nextHandle := nextHandle s + 1\<rparr>)"

definition clearTimeout :: "nat \<Rightarrow> session \<Rightarrow> session" where
  "clearTimeout h s = s\<lparr>timers := filter (\<lambda>t. fst t \<noteq> h) (timers s)\<rparr>"

text \<open>\<^verbatim>\<open>ParticleSystem.updateFrequency\<close>: \<^verbatim>\<open>Math.min(Math.max(frequency, 0), 1)\<close>.\<close>

definition updateFrequency :: "number \<Rightarrow> session \<Rightarrow> session" where
  "updateFrequency frequency s =
     (case particleSystemRef s of
        None \<Rightarrow> s
      | Some _ \<Rightarrow> s\<lparr>particleSystemRef := Some (jsMin (jsMax frequency (Finite 0)) (Finite 1))\<rparr>)"

text \<open>The callback of the debounce timer (use-voice-mode.ts, lines 77 to 89).\<close>

definition debounceCallback :: "session \<Rightarrow> session" where
  "debounceCallback s =
     (let recentAvg = average (audioLevelHistoryRef s);
          confirmedState = voiceStateRef s;
          confirmedState = (if voiceStateRef s = Idle \<and> jsGreater recentAvg ENTER_THRESHOLD
                            then Listening else confirmedState);
          confirmedState = (if voiceStateRef s = Listening \<and> jsLess recentAvg EXIT_THRESHOLD
                            then Idle else confirmedState);
          s1 = (if confirmedState \<noteq> voiceStateRef s \<and> voiceStateRef s \<noteq> Speaking
                   \<and> voiceStateRef s \<noteq> Processing
                then s\<lparr>voiceState := confirmedState\<rparr> else s)
      in s1\<lparr>stateChangeTimerRef := None\<rparr>)"

text \<open>The browser fires a pending timer: the entry leaves the table and the
  callback runs. A handle that is not pending (cleared, or fired before) does nothing.\<close>

definition timerFired :: "nat \<Rightarrow> session \<Rightarrow> session" where
  "timerFired h s =
     (if h \<in> fst ` set (timers s) then debounceCallback (clearTimeout h s) else s)"

text \<open>The callback registered with \<^verbatim>\<open>audioManager.onAudioData\<close>
  (use-voice-mode.ts, lines 39 to 98); \<open>level\<close> is \<^verbatim>\<open>data.averageFrequency\<close>.\<close>

definition onAudioData :: "number \<Rightarrow> session \<Rightarrow> session" where
  "onAudioData level s0 =
     (let s = updateFrequency level s0;
          currentState = voiceStateRef s
      in if currentState \<noteq> Speaking \<and> currentState \<noteq> Processing then
           let s1 = s\<lparr>audioLevelHistoryRef := pushLevel level (audioLevelHistoryRef s)\<rparr>;
               avgLevel = average (audioLevelHistoryRef s1);
               desiredState = currentState;
               desiredState = (if currentState = Idle \<and> jsGreater avgLevel ENTER_THRESHOLD
                               then Listening else desiredState);
               desiredState = (if currentState = Listening \<and> jsLess avgLevel EXIT_THRESHOLD
                               then Idle else desiredState)
           in if desiredState \<noteq> currentState then
                (if stateChangeTimerRef s1 = None then
                   let debounceDelay = (if currentState = Listening \<and> desiredState = Idle
                                        then 1500 else 300);
                       (h, s2) = setTimeout debounceDelay s1
                   in s2\<lparr>stateChangeTimerRef := Some h\<rparr>
                 else s1)
              else (case stateChangeTimerRef s1 of
                      None \<Rightarrow> s1
                    | Some h \<Rightarrow> (clearTimeout h s1)\<lparr>stateChangeTimerRef := None\<rparr>)
         else s)"

text \<open>The effect that keeps the ref in sync with the React state
  (use-voice-mode.ts, lines 23 to 25); it runs after a render, so it is a step of
  its own.\<close>

definition syncVoiceStateRef :: "session \<Rightarrow> session" where
  "syncVoiceStateRef s = s\<lparr>voiceStateRef := voiceState s\<rparr>"

section \<open>useVoiceMode: transcripts and errors\<close>

text \<open>The code units that \<^verbatim>\<open>String.prototype.trim\<close> removes: ECMAScript's
  WhiteSpace and LineTerminator.\<close>

definition isWhiteSpace :: "nat \<Rightarrow> bool" where
  "isWhiteSpace c =
     (c \<in> {9, 10, 11, 12, 13, 32, 160, 5760, 8232, 8233, 8239, 8287, 12288, 65279}
      \<or> (8192 \<le> c \<and> c \<le> 8202))"

definition trim :: "jsstring \<Rightarrow> jsstring" where
  "trim t = rev (dropWhile isWhiteSpace (rev (dropWhile isWhiteSpace t)))"

text \<open>\<^verbatim>\<open>config.onTextRecognized?.(text)\<close>, \<^verbatim>\<open>config.onError?.(err)\<close> and
  \<^verbatim>\<open>config.onSpeechComplete?.()\<close>.\<close>

definition callOnTextRecognized :: "VoiceModeConfig \<Rightarrow> jsstring \<Rightarrow> session \<Rightarrow> session" where
  "callOnTextRecognized cfg text s =
     (if onTextRecognized cfg then s\<lparr>textRecognizedCalls := textRecognizedCalls s @ [text]\<rparr> else s)"

definition callOnError :: "VoiceModeConfig \<Rightarrow> string \<Rightarrow> session \<Rightarrow> session" where
  "callOnError cfg msg s =
     (if onError cfg then s\<lparr>errorCalls := errorCalls s @ [msg]\<rparr> else s)"

definition callOnSpeechComplete :: "VoiceModeConfig \<Rightarrow> session \<Rightarrow> session" where
  "callOnSpeechComplete cfg s =
     (if onSpeechComplete cfg then s\<lparr>speechCompleteCalls := speechCompleteCalls s + 1\<rparr> else s)"

text \<open>The callback registered with \<^verbatim>\<open>audioManager.onTranscript\<close>
  (use-voice-mode.ts, lines 101 to 111). A string is truthy when it is not empty.\<close>

definition onTranscript :: "VoiceModeConfig \<Rightarrow> SpeechRecognitionResult \<Rightarrow> session \<Rightarrow> session" where
  "onTranscript cfg result s0 =
     (let s = s0\<lparr>transcript := r_transcript result\<rparr>
      in if r_isFinal result \<and> trim (r_transcript result) \<noteq> [] then
           (if r_transcript result \<noteq> lastFinalTranscriptRef s then
              callOnTextRecognized cfg (r_transcript result)
                (s\<lparr>lastFinalTranscriptRef := r_transcript result\<rparr>)
            else s)
         else s)"

text \<open>The callback registered with \<^verbatim>\<open>audioManager.onError\<close>
  (use-voice-mode.ts, lines 114 to 118); \<open>msg\<close> is \<^verbatim>\<open>err.message\<close>.\<close>

definition onErrorCallback :: "VoiceModeConfig \<Rightarrow> string \<Rightarrow> session \<Rightarrow> session" where
  "onErrorCallback cfg msg s = callOnError cfg msg (s\<lparr>error := Some msg\<rparr>)"

text \<open>The mount effect (use-voice-mode.ts, lines 28 to 120); \<open>supported\<close> is
  \<^verbatim>\<open>AudioManager.isSupported()\<close>.\<close>

definition mount :: "VoiceModeConfig \<Rightarrow> bool \<Rightarrow> session \<Rightarrow> session" where
  "mount cfg supported s =
     (if \<not> supported then
        callOnError cfg ''Web Speech API is not supported''
          (s\<lparr>error := Some ''Web Speech API is not supported in this browser''\<rparr>)
      else s\<lparr>audioManagerRef := True, isInitialized := True\<rparr>)"

text \<open>\<^verbatim>\<open>initParticleSystem\<close>: only once; the uniform \<^verbatim>\<open>uFrequency\<close> starts at 0.\<close>

definition initParticleSystem :: "session \<Rightarrow> session" where
  "initParticleSystem s =
     (case particleSystemRef s of
        Some _ \<Rightarrow> s
      | None \<Rightarrow> s\<lparr>particleSystemRef := Some (Finite 0)\<rparr>)"

section \<open>AudioManager\<close>

definition requestAnimationFrame :: "session \<Rightarrow> nat \<times> session" where
  "requestAnimationFrame s =
     (nextHandle s, s\<lparr>frames := frames s @ [nextHandle s], nextHandle := nextHandle s + 1\<rparr>)"

definition cancelAnimationFrame :: "nat \<Rightarrow> session \<Rightarrow> session" where
  "cancelAnimationFrame h s = s\<lparr>frames := removeAll h (frames s)\<rparr>"

text \<open>One run of \<^verbatim>\<open>analyze\<close> (index.tsx, lines 371 to 399); \<open>level\<close> is the
  normalized average that the run computes from the analyser's data.\<close>

definition analyze :: "number \<Rightarrow> session \<Rightarrow> session" where
  "analyze level s =
     (if \<not> analyser s \<or> \<not> frequencyData s then s
      else let s1 = onAudioData level s;
               (h, s2) = requestAnimationFrame s1
           in s2\<lparr>animationId := Some h\<rparr>)"

text \<open>The level itself (lines 379 to 384), for a given sum of the bytes that the
  analyser has written: the array has 128 entries (half of \<^verbatim>\<open>fftSize\<close>), the sum is
  an integer that binary64 holds exactly, and it is divided by 128 and then by 255.\<close>

definition normalized :: "nat \<Rightarrow> number" where
  "normalized byteSum = jsDivide (jsDivide (Finite (real byteSum)) 128) 255"

definition startAnalyzing :: "number \<Rightarrow> session \<Rightarrow> session" where
  "startAnalyzing level s =
     (if \<not> analyser s \<or> \<not> frequencyData s then s else analyze level s)"

text \<open>The browser runs a pending animation frame.\<close>

definition frameFired :: "nat \<Rightarrow> number \<Rightarrow> session \<Rightarrow> session" where
  "frameFired h level s =
     (if h \<in> set (frames s) then analyze level (cancelAnimationFrame h s) else s)"

text \<open>\<^verbatim>\<open>initAudioContext\<close> (index.tsx, lines 331 to 365). The result is the error
  thrown, if any, and the session.\<close>

definition initAudioContext :: "VoiceModeConfig \<Rightarrow> MicOutcome \<Rightarrow> session \<Rightarrow> string option \<times> session" where
  "initAudioContext cfg mic s =
     (if audioContext s \<noteq> None then (None, s)
      else let s1 = s\<lparr>getUserMediaCalls := getUserMediaCalls s + 1\<rparr>
           in case mic of
                Denied e \<Rightarrow> (Some e, onErrorCallback cfg ''Microphone access denied'' s1)
              | Granted level \<Rightarrow>
                  let st = nextHandle s1;
                      c = st + 1;
                      s2 = s1\<lparr>stream := Some st, liveStreams := st # liveStreams s1,
                              audioContext := Some c, openContexts := c # openContexts s1,
                              analyser := True, microphone := True, micConnected := True,
                              frequencyData := True, nextHandle := st + 2\<rparr>
                  in (None, startAnalyzing level s2))"

text \<open>\<^verbatim>\<open>recognition.start()\<close>: an object that is running throws
  InvalidStateError.\<close>

definition recognitionStart :: "nat \<Rightarrow> session \<Rightarrow> string option \<times> session" where
  "recognitionStart h s =
     (if h \<in> set (started s) then (Some ''InvalidStateError'', s)
      else (None, s\<lparr>started := h # started s\<rparr>))"

text \<open>\<^verbatim>\<open>AudioManager.startListening\<close> (index.tsx, lines 405 to 456).\<close>

definition AudioManager_startListening ::
    "VoiceModeConfig \<Rightarrow> string \<Rightarrow> bool \<Rightarrow> MicOutcome \<Rightarrow> session \<Rightarrow> string option \<times> session" where
  "AudioManager_startListening cfg lang cont mic s =
     (case initAudioContext cfg mic s of
        (Some e, s1) \<Rightarrow> (Some e, onErrorCallback cfg e s1)
      | (None, s1) \<Rightarrow>
          let h = nextHandle s1;
              s2 = s1\<lparr>recognition := Some h, recognizers := (h, cont) # recognizers s1,
                      nextHandle := h + 1\<rparr>
          in (case recognitionStart h s2 of
                (Some e, s3) \<Rightarrow> (Some e, onErrorCallback cfg e s3)
              | (None, s3) \<Rightarrow> (None, s3)))"

text \<open>The handlers of a recognition object: \<^verbatim>\<open>onresult\<close> hands the result to the
  transcript callback, \<^verbatim>\<open>onerror\<close> reports, \<^verbatim>\<open>onend\<close> (lines 439 to 448) starts
  \<^verbatim>\<open>this.recognition\<close> again when its closure's \<^verbatim>\<open>continuous\<close> is true, ignoring what
  \<^verbatim>\<open>start\<close> throws. \<open>h\<close> is the object whose engine ended.\<close>

definition onresult :: "VoiceModeConfig \<Rightarrow> SpeechRecognitionResult \<Rightarrow> session \<Rightarrow> session" where
  "onresult cfg result s = onTranscript cfg result s"

definition onerror :: "VoiceModeConfig \<Rightarrow> string \<Rightarrow> session \<Rightarrow> session" where
  "onerror cfg e s = onErrorCallback cfg (''Speech recognition error: '' @ e) s"

definition onend :: "nat \<Rightarrow> session \<Rightarrow> session" where
  "onend h s =
     (case map_of (recognizers s) h of
        None \<Rightarrow> s
      | Some cont \<Rightarrow>
          let s1 = s\<lparr>started := removeAll h (started s)\<rparr>
          in if cont \<and> recognition s1 \<noteq> None then
               (case recognition s1 of
                  None \<Rightarrow> s1
                | Some cur \<Rightarrow> snd (recognitionStart cur s1))
             else s1)"

text \<open>\<^verbatim>\<open>AudioManager.stopListening\<close> (lines 459 to 464).\<close>

definition AudioManager_stopListening :: "session \<Rightarrow> session" where
  "AudioManager_stopListening s =
     (case recognition s of
        None \<Rightarrow> s
      | Some h \<Rightarrow> s\<lparr>started := removeAll h (started s), recognition := None\<rparr>)"

text \<open>\<^verbatim>\<open>AudioManager.speak\<close> up to \<^verbatim>\<open>synthesis.speak(utterance)\<close>, and
  \<^verbatim>\<open>stopSpeaking\<close>: \<^verbatim>\<open>synthesis.cancel()\<close> empties the queue.\<close>

definition AudioManager_speak :: "jsstring \<Rightarrow> session \<Rightarrow> session" where
  "AudioManager_speak text s = s\<lparr>utterances := [text]\<rparr>"

definition AudioManager_stopSpeaking :: "session \<Rightarrow> session" where
  "AudioManager_stopSpeaking s = s\<lparr>utterances := []\<rparr>"

text \<open>Browser calls of \<^verbatim>\<open>destroy\<close>. Closing an audio context that is already
  closed is an error of the platform; stopping the tracks of a stream that has
  ended does nothing.\<close>

definition closeContext :: "nat \<Rightarrow> session \<Rightarrow> session" where
  "closeContext c s =
     (if c \<in> set (openContexts s) then s\<lparr>openContexts := removeAll c (openContexts s)\<rparr>
      else s\<lparr>unhandled := unhandled s @ [''InvalidStateError'']\<rparr>)"

definition stopTracks :: "nat \<Rightarrow> session \<Rightarrow> session" where
  "stopTracks st s = s\<lparr>liveStreams := removeAll st (liveStreams s)\<rparr>"

text \<open>\<^verbatim>\<open>AudioManager.destroy\<close> (index.tsx, lines 514 to 541).\<close>

definition destroy :: "session \<Rightarrow> session" where
  "destroy s0 =
     (let s = AudioManager_stopListening s0;
          s = AudioManager_stopSpeaking s;
          s = (case animationId s of None \<Rightarrow> s | Some h \<Rightarrow> cancelAnimationFrame h s);
          s = (if microphone s then s\<lparr>micConnected := False\<rparr> else s);
          s = (case audioContext s of None \<Rightarrow> s | Some c \<Rightarrow> closeContext c s);
          s = (case stream s of None \<Rightarrow> s | Some st \<Rightarrow> stopTracks st s)
      in s\<lparr>audioContext := None, analyser := False, microphone := False, recognition := None,
           frequencyData := False, stream := None\<rparr>)"

section \<open>useVoiceMode: the operations the hook returns\<close>

text \<open>\<^verbatim>\<open>config.language || 'en-US'\<close> and \<^verbatim>\<open>config.continuous ?? true\<close>.\<close>

definition languageOr :: "VoiceModeConfig \<Rightarrow> string" where
  "languageOr cfg = (case language cfg of None \<Rightarrow> ''en-US'' | Some l \<Rightarrow> if l = [] then ''en-US'' else l)"

definition continuousOr :: "VoiceModeConfig \<Rightarrow> bool" where
  "continuousOr cfg = (case continuous cfg of None \<Rightarrow> True | Some c \<Rightarrow> c)"

text \<open>\<^verbatim>\<open>startListening\<close> (use-voice-mode.ts, lines 158 to 178). The function awaits
  the AudioManager, which awaits the microphone; it is run to its end in one step,
  with the answer of the microphone as an argument.\<close>

definition startListening :: "VoiceModeConfig \<Rightarrow> MicOutcome \<Rightarrow> session \<Rightarrow> session" where
  "startListening cfg mic s =
     (if \<not> audioManagerRef s \<or> \<not> isInitialized s then s
      else let s1 = s\<lparr>error := None, voiceState := Idle, voiceStateRef := Idle,
                      transcript := [], lastFinalTranscriptRef := []\<rparr>
           in case AudioManager_startListening cfg (languageOr cfg) (continuousOr cfg) mic s1 of
                (None, s2) \<Rightarrow> s2
              | (Some e, s2) \<Rightarrow>
                  s2\<lparr>error := Some ''Failed to access microphone. Please allow microphone permissions and try again.'',
                     voiceState := Idle, voiceStateRef := Idle\<rparr>)"

text \<open>\<^verbatim>\<open>stopListening\<close> (lines 181 to 185).\<close>

definition stopListening :: "session \<Rightarrow> session" where
  "stopListening s =
     (if \<not> audioManagerRef s then s
      else (AudioManager_stopListening s)\<lparr>voiceState := Idle\<rparr>)"

text \<open>\<^verbatim>\<open>speak\<close> (lines 188 to 209) awaits the synthesis: \<open>speak\<close> is the part
  before the await, \<open>speakFulfilled\<close> what follows when the utterance ends, and
  \<open>speakRejected\<close> the catch block, when synthesis fails.\<close>

definition speak :: "jsstring \<Rightarrow> session \<Rightarrow> session" where
  "speak text s =
     (if \<not> audioManagerRef s \<or> \<not> isInitialized s then s
      else AudioManager_speak text (s\<lparr>voiceState := Speaking, voiceStateRef := Speaking\<rparr>))"

definition speakFulfilled :: "VoiceModeConfig \<Rightarrow> session \<Rightarrow> session" where
  "speakFulfilled cfg s = callOnSpeechComplete cfg (s\<lparr>voiceState := Idle, voiceStateRef := Idle\<rparr>)"

definition speakRejected :: "session \<Rightarrow> session" where
  "speakRejected s = s\<lparr>error := Some ''Failed to speak'', voiceState := Idle, voiceStateRef := Idle\<rparr>"

text \<open>\<^verbatim>\<open>stopSpeaking\<close> (lines 212 to 216).\<close>

definition stopSpeaking :: "session \<Rightarrow> session" where
  "stopSpeaking s =
     (if \<not> audioManagerRef s then s
      else (AudioManager_stopSpeaking s)\<lparr>voiceState := Idle\<rparr>)"

text \<open>The cleanup of the mount effect (lines 122 to 128).\<close>

definition cleanup :: "session \<Rightarrow> session" where
  "cleanup s =
     destroy (case stateChangeTimerRef s of None \<Rightarrow> s | Some h \<Rightarrow> clearTimeout h s)"

section \<open>The VoiceMode component\<close>

text \<open>
  A function created while the component renders is a closure of that render: it
  sees the \<^verbatim>\<open>voiceEnabled\<close> and \<^verbatim>\<open>micEnabled\<close> of that render and the \<^verbatim>\<open>speak\<close> and
  \<^verbatim>\<open>startListening\<close> that the hook returned in it, which are themselves closed over
  the \<^verbatim>\<open>isInitialized\<close> of that render (\<^verbatim>\<open>useCallback\<close> with \<^verbatim>\<open>isInitialized\<close> among the
  dependencies; use-voice-mode.ts, lines 159 and 189). A \<open>render\<close> records these three
  values. In the first render they are the initial values of the three
  \<^verbatim>\<open>useState\<close>: false, true and true.
\<close>

record render =
  isInitialized_in :: bool
  voiceEnabled_in :: bool
  micEnabled_in :: bool

definition firstRender :: render where
  "firstRender = \<lparr> isInitialized_in = False, voiceEnabled_in = True, micEnabled_in = True \<rparr>"

text \<open>The render that shows the session as it is.\<close>

definition currentRender :: "session \<Rightarrow> render" where
  "currentRender s = \<lparr> isInitialized_in = isInitialized s, voiceEnabled_in = voiceEnabled s,
     micEnabled_in = micEnabled s \<rparr>"

text \<open>\<^verbatim>\<open>speak\<close> and \<^verbatim>\<open>startListening\<close> as returned in the render \<open>r\<close>: the guard of
  lines 189 and 159 reads the ref as it is now and \<^verbatim>\<open>isInitialized\<close> as it was in
  \<open>r\<close>. (\<open>speak\<close> and \<open>startListening\<close> above are those of the current render.)\<close>

definition speakIn :: "render \<Rightarrow> jsstring \<Rightarrow> session \<Rightarrow> session" where
  "speakIn r text s =
     (if \<not> audioManagerRef s \<or> \<not> isInitialized_in r then s
      else AudioManager_speak text (s\<lparr>voiceState := Speaking, voiceStateRef := Speaking\<rparr>))"

definition startListeningIn :: "render \<Rightarrow> VoiceModeConfig \<Rightarrow> MicOutcome \<Rightarrow> session \<Rightarrow> session" where
  "startListeningIn r cfg mic s =
     (if \<not> audioManagerRef s \<or> \<not> isInitialized_in r then s
      else let s1 = s\<lparr>error := None, voiceState := Idle, voiceStateRef := Idle,
                      transcript := [], lastFinalTranscriptRef := []\<rparr>
           in case AudioManager_startListening cfg (languageOr cfg) (continuousOr cfg) mic s1 of
                (None, s2) \<Rightarrow> s2
              | (Some e, s2) \<Rightarrow>
                  s2\<lparr>error := Some ''Failed to access microphone. Please allow microphone permissions and try again.'',
                     voiceState := Idle, voiceStateRef := Idle\<rparr>)"

definition mockResponse :: jsstring where
  "mockResponse = js ''I've received your message and I'm processing it.''"

text \<open>The handler passed as \<^verbatim>\<open>onTextRecognized\<close> (index.tsx, lines 29 to 59), up to
  the \<^verbatim>\<open>setTimeout\<close> that stands for the host's response. What it calls here
  (\<^verbatim>\<open>stopListening\<close> and the setters) is the same in every render.\<close>

definition VoiceMode_onTextRecognized :: "jsstring \<Rightarrow> session \<Rightarrow> session" where
  "VoiceMode_onTextRecognized text s0 =
     (let s = s0\<lparr>recognizedText := text\<rparr>;
          s = stopListening s;
          s = s\<lparr>voiceState := Processing\<rparr>;
          s = s\<lparr>pendingResponse := True\<rparr>
      in s\<lparr>submitted := submitted s @ [text]\<rparr>)"

text \<open>The callback of that timeout (lines 44 to 58), when the response arrives, and
  the continuation \<^verbatim>\<open>speak(mockResponse).then(...)\<close> (lines 48 to 53), both as closures
  of the render \<open>r\<close> in which the handler was created.\<close>

definition responseArrived :: "render \<Rightarrow> session \<Rightarrow> session" where
  "responseArrived r s =
     (if voiceEnabled_in r then speakIn r mockResponse s
      else (s\<lparr>pendingResponse := False\<rparr>)\<lparr>voiceState := Idle\<rparr>)"

definition afterSpeak :: "render \<Rightarrow> VoiceModeConfig \<Rightarrow> MicOutcome \<Rightarrow> session \<Rightarrow> session" where
  "afterSpeak r cfg mic s =
     (let s1 = s\<lparr>pendingResponse := False\<rparr>
      in if micEnabled_in r then startListeningIn r cfg mic s1 else s1)"

text \<open>The hook calls \<^verbatim>\<open>config.onTextRecognized\<close> in the transcript callback, which the
  mount effect registers once (its dependency list is empty; use-voice-mode.ts,
  lines 28 to 129): \<^verbatim>\<open>config\<close> there is the configuration of the first render. So
  the handler that runs, its timeout callback and the continuation are the closures
  of the first render, at every moment of the session.\<close>

definition registered_responseArrived :: "session \<Rightarrow> session" where
  "registered_responseArrived s = responseArrived firstRender s"

definition registered_afterSpeak :: "VoiceModeConfig \<Rightarrow> MicOutcome \<Rightarrow> session \<Rightarrow> session" where
  "registered_afterSpeak cfg mic s = afterSpeak firstRender cfg mic s"

text \<open>The handler passed as \<^verbatim>\<open>onSpeechComplete\<close> (lines 60 to 65). The hook calls it
  from \<^verbatim>\<open>speak\<close>, which is created anew in every render with the configuration of that
  render; \<open>enabled\<close> is \<^verbatim>\<open>micEnabled\<close> in the render whose \<^verbatim>\<open>speak\<close> was called. That
  \<^verbatim>\<open>speak\<close> passed its guard, so \<^verbatim>\<open>isInitialized\<close> was true in that render, as it is
  in the current one.\<close>

definition VoiceMode_onSpeechComplete :: "VoiceModeConfig \<Rightarrow> bool \<Rightarrow> MicOutcome \<Rightarrow> session \<Rightarrow> session" where
  "VoiceMode_onSpeechComplete cfg enabled mic s =
     (if enabled then startListening cfg mic s else s)"

text \<open>The two toggle buttons (index.tsx, lines 120 to 135). The buttons are rendered
  anew in every render, so their handlers are those of the current render.\<close>

definition handleToggleMic :: "VoiceModeConfig \<Rightarrow> MicOutcome \<Rightarrow> session \<Rightarrow> session" where
  "handleToggleMic cfg mic s =
     (let s1 = s\<lparr>micEnabled := \<not> micEnabled s\<rparr>
      in if \<not> micEnabled s then startListening cfg mic s1 else stopListening s1)"

definition handleToggleVoice :: "session \<Rightarrow> session" where
  "handleToggleVoice s =
     (let s1 = s\<lparr>voiceEnabled := \<not> voiceEnabled s\<rparr>
      in if voiceEnabled s then stopSpeaking s1 else s1)"

section \<open>Sessions as sequences of events\<close>

text \<open>
  Everything runs on one event loop, so a session is a sequence of events, each
  handled to completion: the browser's (a frame, a timer, the recognition engine,
  the synthesis settling, React running the sync effect), the host's calls of the
  operations the hook returns, and those of the VoiceMode component: the handler of
  a recognized text, the response and the continuation after it (the closures the
  hook holds, those of the first render), the handler of a completed speech, and
  the two toggles.
\<close>

datatype event =
    Frame nat number
  | TimerFired nat
  | Effect
  | RecognitionResult SpeechRecognitionResult
  | RecognitionError string
  | RecognitionEnd nat
  | StartListening MicOutcome
  | StopListening
  | Speak jsstring
  | SpeakFulfilled
  | SpeakRejected
  | StopSpeaking
  | SetVoiceState VoiceState
  | InitParticleSystem
  | TextRecognized jsstring
  | ResponseArrived
  | AfterSpeak MicOutcome
  | SpeechComplete bool MicOutcome
  | ToggleMic MicOutcome
  | ToggleVoice
  | Cleanup

fun step :: "VoiceModeConfig \<Rightarrow> event \<Rightarrow> session \<Rightarrow> session" where
  "step cfg (Frame h level) s = frameFired h level s"
| "step cfg (TimerFired h) s = timerFired h s"
| "step cfg Effect s = syncVoiceStateRef s"
| "step cfg (RecognitionResult r) s = onresult cfg r s"
| "step cfg (RecognitionError e) s = onerror cfg e s"
| "step cfg (RecognitionEnd h) s = onend h s"
| "step cfg (StartListening mic) s = startListening cfg mic s"
| "step cfg StopListening s = stopListening s"
| "step cfg (Speak text) s = speak text s"
| "step cfg SpeakFulfilled s = speakFulfilled cfg s"
| "step cfg SpeakRejected s = speakRejected s"
| "step cfg StopSpeaking s = stopSpeaking s"
| "step cfg (SetVoiceState v) s = s\<lparr>voiceState := v\<rparr>"
| "step cfg InitParticleSystem s = initParticleSystem s"
| "step cfg (TextRecognized text) s = VoiceMode_onTextRecognized text s"
| "step cfg ResponseArrived s = registered_responseArrived s"
| "step cfg (AfterSpeak mic) s = registered_afterSpeak cfg mic s"
| "step cfg (SpeechComplete enabled mic) s = VoiceMode_onSpeechComplete cfg enabled mic s"
| "step cfg (ToggleMic mic) s = handleToggleMic cfg mic s"
| "step cfg ToggleVoice s = handleToggleVoice s"
| "step cfg Cleanup s = cleanup s"

fun run :: "VoiceModeConfig \<Rightarrow> event list \<Rightarrow> session \<Rightarrow> session" where
  "run cfg [] s = s"
| "run cfg (e # es) s = run cfg es (step cfg e s)"

text \<open>A run of amplitude samples alone.\<close>

fun samples :: "number list \<Rightarrow> session \<Rightarrow> session" where
  "samples [] s = s"
| "samples (level # levels) s = samples levels (onAudioData level s)"

text \<open>The session once the hook is mounted.\<close>

definition mounted :: "VoiceModeConfig \<Rightarrow> bool \<Rightarrow> session" where
  "mounted cfg supported = mount cfg supported initial"

text \<open>The configuration that the VoiceMode component passes to the hook
  (index.tsx, lines 28 to 71), and its close button (lines 113 to 117; the host's
  \<^verbatim>\<open>onClose\<close> is outside the model).\<close>

definition VoiceMode_config :: VoiceModeConfig where
  "VoiceMode_config = \<lparr> onTextRecognized = True, onSpeechComplete = True, onError = True,
     language = Some ''en-US'', continuous = Some False \<rparr>"

definition handleClose :: "session \<Rightarrow> session" where
  "handleClose s = stopSpeaking (stopListening s)"

section \<open>Notions used by the properties\<close>


text \<open>The smoothed level crosses the threshold that would change the state:
  above ENTER in idle, below EXIT in listening.\<close>

definition crossing :: "VoiceState \<Rightarrow> number \<Rightarrow> bool" where
  "crossing st avg =
     (st = Idle \<and> jsGreater avg ENTER_THRESHOLD \<or> st = Listening \<and> jsLess avg EXIT_THRESHOLD)"

text \<open>What the voice-activity logic maintains, and what holds of it throughout a
  session: at most one timer, a window of at most five levels.\<close>

definition vad :: "session \<Rightarrow> (nat \<times> nat) list \<times> nat option \<times> number list" where
  "vad s = (timers s, stateChangeTimerRef s, audioLevelHistoryRef s)"



text \<open>A run of transcript events alone, a final result with a given text, and the
  text of the last final result of a list that is not empty after trimming
  (\<open>v\<close> when there is none).\<close>

fun transcripts :: "VoiceModeConfig \<Rightarrow> SpeechRecognitionResult list \<Rightarrow> session \<Rightarrow> session" where
  "transcripts cfg [] s = s"
| "transcripts cfg (r # rs) s = transcripts cfg rs (onTranscript cfg r s)"

definition final :: "jsstring \<Rightarrow> SpeechRecognitionResult" where
  "final t = \<lparr> r_transcript = t, r_isFinal = True, r_confidence = 1 \<rparr>"

fun lastNonEmptyFinal :: "jsstring \<Rightarrow> SpeechRecognitionResult list \<Rightarrow> jsstring" where
  "lastNonEmptyFinal v [] = v"
| "lastNonEmptyFinal v (r # rs) =
     lastNonEmptyFinal (if r_isFinal r \<and> trim (r_transcript r) \<noteq> [] then r_transcript r else v) rs"


text \<open>The audio context the AudioManager holds, the contexts open in the browser
  and the errors nothing caught; and what holds of them throughout a session: the
  context held is open, and there is no such error.\<close>

definition ctx :: "session \<Rightarrow> nat option \<times> nat list \<times> string list" where
  "ctx s = (audioContext s, openContexts s, unhandled s)"

definition ctxInv :: "session \<Rightarrow> bool" where
  "ctxInv s =
     (unhandled s = [] \<and> set_option (audioContext s) \<subseteq> set (openContexts s))"

section \<open>Example sessions\<close>

text \<open>The VoiceMode component has mounted and started listening; the microphone
  is granted, and the first level read is 1/64 (quiet) or 1/8 (loud). The levels
  used in the examples, 1/64, 1/8, 1/4 and 1/2, are those that \<^verbatim>\<open>analyze\<close> computes
  for the byte sums 510, 4080, 8160 and 16320.\<close>

definition quietStart :: session where
  "quietStart =
     run VoiceMode_config [StartListening (Granted (Finite (1/64)))] (mounted VoiceMode_config True)"

definition loudStart :: session where
  "loudStart =
     run VoiceMode_config [StartListening (Granted (Finite (1/8)))] (mounted VoiceMode_config True)"

text \<open>After a quiet start the final transcript \<^verbatim>\<open>"organize my tabs"\<close> has arrived;
  then the hook has called the component's handler.\<close>

definition heardOnce :: session where
  "heardOnce = onTranscript VoiceMode_config (final (js ''organize my tabs'')) quietStart"

definition awaitingResponse :: session where
  "awaitingResponse = VoiceMode_onTextRecognized (js ''organize my tabs'') heardOnce"

text \<open>The same after a loud start: the first tick has scheduled the debounce timer,
  and neither has it fired nor has the sync effect run when the transcript arrives.\<close>

definition staleProcessing :: session where
  "staleProcessing =
     run VoiceMode_config [RecognitionResult (final (js ''organize my tabs'')),
                           TextRecognized (js ''organize my tabs'')] loudStart"

text \<open>After a quiet start the user has switched voice output off; then the final
  transcript has arrived and the hook has called the component's handler.\<close>

definition voiceOff :: session where
  "voiceOff =
     run VoiceMode_config [ToggleVoice, RecognitionResult (final (js ''organize my tabs'')),
                           TextRecognized (js ''organize my tabs'')] quietStart"

text \<open>A host that passes all three callbacks and leaves language and mode to their
  defaults (continuous recognition) has mounted the hook and started listening;
  then the engine has delivered the final transcripts \<^verbatim>\<open>"a"\<close> and \<^verbatim>\<open>" "\<close>.\<close>

definition defaultConfig :: VoiceModeConfig where
  "defaultConfig = \<lparr> onTextRecognized = True, onSpeechComplete = True, onError = True,
     language = None, continuous = None \<rparr>"

definition continuousStart :: session where
  "continuousStart =
     run defaultConfig [StartListening (Granted (Finite (1/64)))] (mounted defaultConfig True)"

definition afterBlankFinal :: session where
  "afterBlankFinal = transcripts defaultConfig [final (js ''a''), final (js '' '')] continuousStart"

section \<open>Binary64 arithmetic: evaluation\<close>

lemma pow2_powr: "pow2 e = 2 powr (real_of_int e)"
proof (cases "0 \<le> e")
  case True
  then have "real_of_int e = real (nat e)" by simp
  then have "2 powr (real_of_int e) = 2 powr (real (nat e))" by (rule arg_cong)
  also have "\<dots> = 2 ^ nat e" by (simp add: powr_realpow)
  finally show ?thesis using True by (simp add: pow2_def)
next
  case False
  then have "real_of_int e = - real (nat (- e))" by simp
  then have "2 powr (real_of_int e) = 2 powr (- real (nat (- e)))" by (rule arg_cong)
  also have "\<dots> = 1 / 2 powr (real (nat (- e)))" by (simp add: powr_minus_divide)
  also have "\<dots> = 1 / 2 ^ nat (- e)" by (simp add: powr_realpow)
  finally show ?thesis using False by (simp add: pow2_def)
qed

lemma pow2_mono: "a \<le> b \<Longrightarrow> pow2 a \<le> pow2 b"
  by (simp add: pow2_powr)

lemma pow2_less_iff: "pow2 a < pow2 b \<longleftrightarrow> a < b"
  by (simp add: pow2_powr)

lemma exponentFrom_eq:
  "k \<le> e \<Longrightarrow> nat (e - k) \<le> n \<Longrightarrow> pow2 k \<le> x \<Longrightarrow> x < pow2 (k + 1) \<Longrightarrow>
   exponentFrom n e x = k"
proof (induction n arbitrary: e)
  case 0
  then show ?case by simp
next
  case (Suc n)
  show ?case
  proof (cases "pow2 e \<le> x")
    case True
    with Suc.prems(4) have "pow2 e < pow2 (k + 1)" by simp
    then have "e < k + 1" by (simp add: pow2_less_iff)
    with Suc.prems(1) True show ?thesis by simp
  next
    case False
    with Suc.prems(3) have "e \<noteq> k" by auto
    with Suc.prems(1) have "k \<le> e - 1" by simp
    moreover from Suc.prems(2) \<open>e \<noteq> k\<close> Suc.prems(1) have "nat (e - 1 - k) \<le> n" by simp
    ultimately have "exponentFrom n (e - 1) x = k"
      using Suc.prems(3,4) by (rule Suc.IH)
    with False show ?thesis by simp
  qed
qed

lemma exponent_eq:
  assumes "- 1022 \<le> k" and "k \<le> 1023" and "pow2 k \<le> \<bar>x\<bar>" and "\<bar>x\<bar> < pow2 (k + 1)"
  shows "exponent x = k"
  unfolding exponent_def
  using assms by (intro exponentFrom_eq) simp_all

lemma round64_eval:
  assumes "- 1022 \<le> k" and "k \<le> 1023" and "pow2 k \<le> \<bar>x\<bar>" and "\<bar>x\<bar> < pow2 (k + 1)"
  shows "round64 x =
     (let ulp = pow2 (k - 52);
          r = of_int (roundHalfEven (x / ulp)) * ulp
      in if pow2 1024 \<le> r then PosInfinity
         else if r \<le> - pow2 1024 then NegInfinity
         else Finite r)"
  unfolding round64_def exponent_eq [OF assms] ..

lemma round64_0: "round64 0 = Finite 0"
  by (simp add: round64_def roundHalfEven_def pow2_def Let_def)

lemma round64_64th: "round64 (1/64) = Finite (1/64)"
  using round64_eval [of "-6" "1/64"]
  by (simp add: pow2_def roundHalfEven_def Let_def)

lemma ENTER_THRESHOLD_value: "ENTER_THRESHOLD = Finite (3602879701896397 / 36028797018963968)"
  unfolding ENTER_THRESHOLD_def
  using round64_eval [of "-4" "0.10"]
  by (simp add: pow2_def roundHalfEven_def Let_def)

lemma EXIT_THRESHOLD_value: "EXIT_THRESHOLD = Finite (1080863910568919 / 36028797018963968)"
  unfolding EXIT_THRESHOLD_def
  using round64_eval [of "-6" "0.03"]
  by (simp add: pow2_def roundHalfEven_def Let_def)

section \<open>Voice-activity detection: basic facts\<close>

lemma voiceStateRef_updateFrequency: "voiceStateRef (updateFrequency l s) = voiceStateRef s"
  by (simp add: updateFrequency_def split: option.splits)

lemma updateFrequency_fields:
  "voiceState (updateFrequency l s) = voiceState s"
  "timers (updateFrequency l s) = timers s"
  "stateChangeTimerRef (updateFrequency l s) = stateChangeTimerRef s"
  "audioLevelHistoryRef (updateFrequency l s) = audioLevelHistoryRef s"
  "nextHandle (updateFrequency l s) = nextHandle s"
  by (simp_all add: updateFrequency_def split: option.splits)

lemma updateFrequency_restore:
  "(updateFrequency l s)\<lparr>particleSystemRef := p\<rparr> = s\<lparr>particleSystemRef := p\<rparr>"
  by (simp add: updateFrequency_def split: option.splits)

lemma clearTimeout_fields:
  "voiceState (clearTimeout h s) = voiceState s"
  "voiceStateRef (clearTimeout h s) = voiceStateRef s"
  "stateChangeTimerRef (clearTimeout h s) = stateChangeTimerRef s"
  "audioLevelHistoryRef (clearTimeout h s) = audioLevelHistoryRef s"
  "timers (clearTimeout h s) = filter (\<lambda>t. fst t \<noteq> h) (timers s)"
  by (simp_all add: clearTimeout_def)

text \<open>In speaking and processing a tick only feeds the particle system.\<close>

lemma onAudioData_preempted:
  "voiceStateRef s = Speaking \<or> voiceStateRef s = Processing \<Longrightarrow>
   onAudioData level s = updateFrequency level s"
  unfolding onAudioData_def Let_def voiceStateRef_updateFrequency
  by (elim disjE) simp_all

lemma samples_preempted:
  "voiceStateRef s = Speaking \<or> voiceStateRef s = Processing \<Longrightarrow>
   (samples levels s)\<lparr>particleSystemRef := p\<rparr> = s\<lparr>particleSystemRef := p\<rparr>"
proof (induction levels arbitrary: s)
  case Nil
  show ?case by simp
next
  case (Cons l ls)
  have ref: "voiceStateRef (updateFrequency l s) = Speaking
             \<or> voiceStateRef (updateFrequency l s) = Processing"
    using Cons.prems by (simp add: voiceStateRef_updateFrequency)
  have "(samples (l # ls) s)\<lparr>particleSystemRef := p\<rparr>
        = (samples ls (updateFrequency l s))\<lparr>particleSystemRef := p\<rparr>"
    using Cons.prems by (simp add: onAudioData_preempted)
  also have "\<dots> = (updateFrequency l s)\<lparr>particleSystemRef := p\<rparr>"
    by (rule Cons.IH [OF ref])
  also have "\<dots> = s\<lparr>particleSystemRef := p\<rparr>"
    by (rule updateFrequency_restore)
  finally show ?case .
qed

lemma debounceCallback_voiceStateRef: "voiceStateRef (debounceCallback s) = voiceStateRef s"
  by (simp add: debounceCallback_def Let_def)

lemma debounceCallback_preempted:
  "voiceStateRef s = Speaking \<or> voiceStateRef s = Processing \<Longrightarrow>
   debounceCallback s = s\<lparr>stateChangeTimerRef := None\<rparr>"
  unfolding debounceCallback_def Let_def
  by (elim disjE) simp_all

lemma timerFired_voiceStateRef: "voiceStateRef (timerFired h s) = voiceStateRef s"
  by (simp add: timerFired_def debounceCallback_voiceStateRef clearTimeout_fields)

lemma onAudioData_voiceState:
  "voiceState (onAudioData level s) = voiceState s
   \<and> voiceStateRef (onAudioData level s) = voiceStateRef s"
  by (simp add: onAudioData_def Let_def setTimeout_def updateFrequency_fields
      voiceStateRef_updateFrequency clearTimeout_fields split: option.splits)

text \<open>The timer callback commits only idle to listening and listening to idle,
  and only when the window still indicates it.\<close>

lemma debounceCallback_commit:
  "voiceState (debounceCallback s) \<noteq> voiceState s \<Longrightarrow>
     (voiceStateRef s = Idle \<and> voiceState (debounceCallback s) = Listening
        \<and> jsGreater (average (audioLevelHistoryRef s)) ENTER_THRESHOLD)
   \<or> (voiceStateRef s = Listening \<and> voiceState (debounceCallback s) = Idle
        \<and> jsLess (average (audioLevelHistoryRef s)) EXIT_THRESHOLD)"
  by (simp add: debounceCallback_def Let_def split: if_splits)

text \<open>In idle and listening a tick updates the window and then schedules,
  keeps or cancels the timer.\<close>

lemma onAudioData_active:
  assumes "voiceStateRef s = Idle \<or> voiceStateRef s = Listening"
  shows "vad (onAudioData level s) =
     (let window = pushLevel level (audioLevelHistoryRef s) in
      if crossing (voiceStateRef s) (average window) then
        (if stateChangeTimerRef s = None
         then (timers s @ [(nextHandle s, if voiceStateRef s = Listening then 1500 else 300)],
               Some (nextHandle s), window)
         else (timers s, stateChangeTimerRef s, window))
      else (case stateChangeTimerRef s of
              None \<Rightarrow> (timers s, None, window)
            | Some h \<Rightarrow> (filter (\<lambda>t. fst t \<noteq> h) (timers s), None, window)))"
  using assms
  unfolding onAudioData_def Let_def voiceStateRef_updateFrequency crossing_def vad_def
  by (elim disjE)
     (simp_all add: setTimeout_def updateFrequency_fields clearTimeout_fields split: option.splits)






lemma vad_eqD:
  "vad s = (a, b, c) \<Longrightarrow> timers s = a \<and> stateChangeTimerRef s = b \<and> audioLevelHistoryRef s = c"
  by (simp add: vad_def)





text \<open>Everything else leaves the timer table, the timer ref and the window alone.\<close>

lemma vad_frames:
  "vad (cancelAnimationFrame h s) = vad s"
  "vad (snd (requestAnimationFrame s)) = vad s"
  "vad (s\<lparr>animationId := a\<rparr>) = vad s"
  by (simp_all add: vad_def cancelAnimationFrame_def requestAnimationFrame_def)

lemma vad_calls:
  "vad (callOnTextRecognized cfg t s) = vad s"
  "vad (callOnError cfg m s) = vad s"
  "vad (callOnSpeechComplete cfg s) = vad s"
  by (simp_all add: vad_def callOnTextRecognized_def callOnError_def callOnSpeechComplete_def)

lemma vad_updates:
  "vad (s\<lparr>voiceState := v\<rparr>) = vad s"
  "vad (s\<lparr>voiceStateRef := v\<rparr>) = vad s"
  "vad (s\<lparr>transcript := t\<rparr>) = vad s"
  "vad (s\<lparr>lastFinalTranscriptRef := t\<rparr>) = vad s"
  "vad (s\<lparr>error := e\<rparr>) = vad s"
  "vad (s\<lparr>pendingResponse := b\<rparr>) = vad s"
  "vad (s\<lparr>recognizedText := t\<rparr>) = vad s"
  "vad (s\<lparr>submitted := ts\<rparr>) = vad s"
  "vad (s\<lparr>utterances := us\<rparr>) = vad s"
  "vad (s\<lparr>getUserMediaCalls := n\<rparr>) = vad s"
  "vad (s\<lparr>voiceEnabled := b\<rparr>) = vad s"
  "vad (s\<lparr>micEnabled := b\<rparr>) = vad s"
  by (simp_all add: vad_def)

lemma vad_onTranscript: "vad (onTranscript cfg r s) = vad s"
  by (simp add: onTranscript_def Let_def vad_calls vad_updates)




lemma vad_AudioManager_stopListening: "vad (AudioManager_stopListening s) = vad s"
  by (simp add: AudioManager_stopListening_def vad_def split: option.splits)

lemma vad_stopListening: "vad (stopListening s) = vad s"
  by (simp add: stopListening_def vad_updates vad_AudioManager_stopListening)







lemma vad_VoiceMode_onTextRecognized: "vad (VoiceMode_onTextRecognized t s) = vad s"
  by (simp add: VoiceMode_onTextRecognized_def Let_def vad_updates vad_stopListening)




lemma vad_destroy: "vad (destroy s) = vad s"
proof -
  have 1: "vad (AudioManager_stopSpeaking x) = vad x" for x
    by (simp add: AudioManager_stopSpeaking_def vad_def)
  have 2: "vad (case animationId x of None \<Rightarrow> x | Some h \<Rightarrow> cancelAnimationFrame h x) = vad x" for x
    by (simp add: vad_frames split: option.splits)
  have 3: "vad (if microphone x then x\<lparr>micConnected := False\<rparr> else x) = vad x" for x
    by (simp add: vad_def)
  have 4: "vad (case audioContext x of None \<Rightarrow> x | Some c \<Rightarrow> closeContext c x) = vad x" for x
    by (simp add: closeContext_def vad_def split: option.splits)
  have 5: "vad (case stream x of None \<Rightarrow> x | Some st \<Rightarrow> stopTracks st x) = vad x" for x
    by (simp add: stopTracks_def vad_def split: option.splits)
  have 6: "vad (x\<lparr>audioContext := None, analyser := False, microphone := False,
        recognition := None, frequencyData := False, stream := None\<rparr>) = vad x" for x
    by (simp add: vad_def)
  show ?thesis
    unfolding destroy_def Let_def
    by (simp only: 1 2 3 4 5 6 vad_AudioManager_stopListening)
qed









text \<open>In the current render the functions of a render are those of the hook.\<close>

lemma startListeningIn_current: "startListeningIn (currentRender s) cfg mic s = startListening cfg mic s"
  by (simp add: startListeningIn_def startListening_def currentRender_def)

lemma speakIn_current: "speakIn (currentRender s) t s = speak t s"
  by (simp add: speakIn_def speak_def currentRender_def)









section \<open>Evaluating concrete sessions\<close>

lemma round64_values:
  "round64 0 = Finite 0"
  "round64 (1/64) = Finite (1/64)"
  "round64 (1/8) = Finite (1/8)"
  "round64 (1/2) = Finite (1/2)"
  "round64 (33/64) = Finite (33/64)"
  "round64 (33/128) = Finite (33/128)"
  "round64 (9/64) = Finite (9/64)"
  "round64 (9/128) = Finite (9/128)"
proof -
  show "round64 0 = Finite 0"
    by (simp add: round64_def roundHalfEven_def pow2_def Let_def)
  show "round64 (1/64) = Finite (1/64)"
    using round64_eval [of "-6" "1/64"] by (simp add: pow2_def roundHalfEven_def Let_def)
  show "round64 (1/8) = Finite (1/8)"
    using round64_eval [of "-3" "1/8"] by (simp add: pow2_def roundHalfEven_def Let_def)
  show "round64 (1/2) = Finite (1/2)"
    using round64_eval [of "-1" "1/2"] by (simp add: pow2_def roundHalfEven_def Let_def)
  show "round64 (33/64) = Finite (33/64)"
    using round64_eval [of "-1" "33/64"] by (simp add: pow2_def roundHalfEven_def Let_def)
  show "round64 (33/128) = Finite (33/128)"
    using round64_eval [of "-2" "33/128"] by (simp add: pow2_def roundHalfEven_def Let_def)
  show "round64 (9/64) = Finite (9/64)"
    using round64_eval [of "-3" "9/64"] by (simp add: pow2_def roundHalfEven_def Let_def)
  show "round64 (9/128) = Finite (9/128)"
    using round64_eval [of "-4" "9/128"] by (simp add: pow2_def roundHalfEven_def Let_def)
qed

lemmas eval_defs =
  mounted_def mount_def initial_def startListening_def AudioManager_startListening_def
  initAudioContext_def startAnalyzing_def analyze_def onAudioData_def updateFrequency_def
  pushLevel_def average_def setTimeout_def clearTimeout_def requestAnimationFrame_def
  cancelAnimationFrame_def recognitionStart_def onErrorCallback_def callOnError_def
  callOnTextRecognized_def callOnSpeechComplete_def languageOr_def continuousOr_def
  VoiceMode_config_def ENTER_THRESHOLD_value EXIT_THRESHOLD_value Let_def frameFired_def
  timerFired_def debounceCallback_def syncVoiceStateRef_def speak_def AudioManager_speak_def
  crossing_def jsGreater_def round64_values

section \<open>Properties of voice-activity detection\<close>

lemma history_onAudioData_active:
  "voiceStateRef s = Idle \<or> voiceStateRef s = Listening \<Longrightarrow>
   audioLevelHistoryRef (onAudioData level s) = pushLevel level (audioLevelHistoryRef s)"
  using onAudioData_active [of s level]
  by (auto simp: vad_def Let_def split: if_splits option.splits)



text \<open>
  Once the state that the audio callbacks consult is speaking or processing,
  amplitude samples change nothing of the session but the uniform of the particle
  system: over any run of samples the window, the timer ref, the timer table and the
  state stay as they are, and a timer that fires then commits no transition.
\<close>

lemma preempted_by_consulted_state:
  assumes "voiceStateRef s = Speaking \<or> voiceStateRef s = Processing"
  shows "(samples levels s)\<lparr>particleSystemRef := particleSystemRef s\<rparr> = s
       \<and> vad (onAudioData level s) = vad s
       \<and> voiceState (timerFired h s) = voiceState s
       \<and> voiceStateRef (timerFired h s) = voiceStateRef s"
proof -
  have "(samples levels s)\<lparr>particleSystemRef := particleSystemRef s\<rparr>
        = s\<lparr>particleSystemRef := particleSystemRef s\<rparr>"
    using assms by (rule samples_preempted)
  then have run: "(samples levels s)\<lparr>particleSystemRef := particleSystemRef s\<rparr> = s"
    by simp
  have tick: "vad (onAudioData level s) = vad s"
    using assms by (simp add: onAudioData_preempted vad_def updateFrequency_fields)
  have "voiceStateRef (clearTimeout h s) = Speaking \<or> voiceStateRef (clearTimeout h s) = Processing"
    using assms by (simp add: clearTimeout_fields)
  then have "voiceState (debounceCallback (clearTimeout h s)) = voiceState s"
    by (simp add: debounceCallback_preempted clearTimeout_fields)
  then have fire: "voiceState (timerFired h s) = voiceState s"
    by (simp add: timerFired_def)
  from run tick fire show ?thesis
    by (simp add: timerFired_voiceStateRef)
qed

lemma debounceCallback_crossing:
  "crossing (voiceStateRef s) (average (audioLevelHistoryRef s)) \<Longrightarrow>
   voiceState (debounceCallback s) = (if voiceStateRef s = Idle then Listening else Idle)"
  by (auto simp: debounceCallback_def Let_def crossing_def)

lemma VoiceMode_onTextRecognized_states:
  "voiceState (VoiceMode_onTextRecognized words s) = Processing
   \<and> voiceStateRef (VoiceMode_onTextRecognized words s) = voiceStateRef s"
  by (simp add: VoiceMode_onTextRecognized_def Let_def stopListening_def
      AudioManager_stopListening_def split: option.splits)

lemma loudStart_facts:
  "voiceState loudStart = Idle" "voiceStateRef loudStart = Idle"
  "timers loudStart = [(3, 300)]" "stateChangeTimerRef loudStart = Some 3"
  "audioLevelHistoryRef loudStart = [Finite (1/8)]" "audioManagerRef loudStart"
  by (simp_all add: loudStart_def eval_defs)

lemma quietStart_facts:
  "voiceState quietStart = Idle" "voiceStateRef quietStart = Idle"
  "timers quietStart = []" "stateChangeTimerRef quietStart = None"
  "audioLevelHistoryRef quietStart = [Finite (1/64)]" "nextHandle quietStart = 5"
  by (simp_all add: quietStart_def eval_defs)

lemma voiceStateRef_onTranscript: "voiceStateRef (onTranscript cfg r s) = voiceStateRef s"
  by (simp add: onTranscript_def Let_def callOnTextRecognized_def)

lemma nextHandle_heard:
  "nextHandle (onTranscript cfg r s) = nextHandle s"
  "nextHandle (VoiceMode_onTextRecognized words s) = nextHandle s"
  by (simp_all add: onTranscript_def Let_def callOnTextRecognized_def
      VoiceMode_onTextRecognized_def stopListening_def AudioManager_stopListening_def
      split: option.splits)

lemma staleProcessing_facts:
  "voiceState staleProcessing = Processing" "voiceStateRef staleProcessing = Idle"
  "timers staleProcessing = [(3, 300)]"
  "audioLevelHistoryRef staleProcessing = [Finite (1/8)]"
proof -
  let ?r = "final (js ''organize my tabs'')"
  have s: "staleProcessing
           = VoiceMode_onTextRecognized (js ''organize my tabs'') (onTranscript VoiceMode_config ?r loudStart)"
    by (simp add: staleProcessing_def onresult_def)
  have v: "vad staleProcessing = vad loudStart"
    unfolding s by (simp add: vad_VoiceMode_onTextRecognized vad_onTranscript)
  show "voiceState staleProcessing = Processing"
    unfolding s by (simp add: VoiceMode_onTextRecognized_states)
  show "voiceStateRef staleProcessing = Idle"
    unfolding s by (simp add: VoiceMode_onTextRecognized_states voiceStateRef_onTranscript loudStart_facts)
  from v show "timers staleProcessing = [(3, 300)]"
    by (simp add: vad_def loudStart_facts)
  from v show "audioLevelHistoryRef staleProcessing = [Finite (1/8)]"
    by (simp add: vad_def loudStart_facts)
qed

lemma awaitingResponse_facts:
  "voiceState awaitingResponse = Processing" "voiceStateRef awaitingResponse = Idle"
  "timers awaitingResponse = []" "stateChangeTimerRef awaitingResponse = None"
  "audioLevelHistoryRef awaitingResponse = [Finite (1/64)]" "nextHandle awaitingResponse = 5"
proof -
  have v: "vad awaitingResponse = vad quietStart"
    by (simp add: awaitingResponse_def heardOnce_def vad_VoiceMode_onTextRecognized vad_onTranscript)
  show "voiceState awaitingResponse = Processing"
    by (simp add: awaitingResponse_def VoiceMode_onTextRecognized_states)
  show "voiceStateRef awaitingResponse = Idle"
    by (simp add: awaitingResponse_def heardOnce_def VoiceMode_onTextRecognized_states
        voiceStateRef_onTranscript quietStart_facts)
  from v show "timers awaitingResponse = []" "stateChangeTimerRef awaitingResponse = None"
    "audioLevelHistoryRef awaitingResponse = [Finite (1/64)]"
    by (simp_all add: vad_def quietStart_facts)
  show "nextHandle awaitingResponse = 5"
    by (simp add: awaitingResponse_def heardOnce_def nextHandle_heard quietStart_facts)
qed

text \<open>
  \<^bold>\<open>C1.\<close> What the code does while the state is processing. The audio callback and
  the callback of the debounce timer read \<open>voiceStateRef\<close>, and processing is entered
  by \<^verbatim>\<open>setVoiceState\<close> alone (index.tsx, line 35), which leaves the ref to the sync
  effect of the next render: the handler of a recognized text sets the state to
  processing and leaves the ref as it is. So, until that effect has run, the state is
  processing while the ref still holds idle or listening, and the amplitude logic goes
  on: a debounce timer that is pending fires and, the window still crossing the
  threshold, commits its transition, so the state leaves processing for listening
  (or for idle); and a tick is handled, its level enters the window, and it schedules
  a timer when the timer ref is empty and the mean crosses the threshold. \<^verbatim>\<open>speak\<close>,
  by contrast, sets the ref together with the state.
\<close>

theorem C1_processing_left_by_amplitude_logic_before_sync:
  assumes "voiceState s = Processing"
      and "voiceStateRef s = Idle \<or> voiceStateRef s = Listening"
  shows "(h \<in> fst ` set (timers s)
            \<and> crossing (voiceStateRef s) (average (audioLevelHistoryRef s))
          \<longrightarrow> voiceState (timerFired h s) = (if voiceStateRef s = Idle then Listening else Idle))
       \<and> audioLevelHistoryRef (onAudioData level s) = pushLevel level (audioLevelHistoryRef s)
       \<and> (stateChangeTimerRef s = None
            \<and> crossing (voiceStateRef s) (average (pushLevel level (audioLevelHistoryRef s)))
          \<longrightarrow> timers (onAudioData level s)
                = timers s @ [(nextHandle s, if voiceStateRef s = Listening then 1500 else 300)])
       \<and> voiceState (VoiceMode_onTextRecognized words s') = Processing
       \<and> voiceStateRef (VoiceMode_onTextRecognized words s') = voiceStateRef s'
       \<and> (audioManagerRef s' \<and> isInitialized s'
          \<longrightarrow> voiceState (speak words s') = Speaking \<and> voiceStateRef (speak words s') = Speaking)"
proof -
  have fire: "h \<in> fst ` set (timers s)
            \<and> crossing (voiceStateRef s) (average (audioLevelHistoryRef s))
          \<longrightarrow> voiceState (timerFired h s) = (if voiceStateRef s = Idle then Listening else Idle)"
  proof
    assume a: "h \<in> fst ` set (timers s)
            \<and> crossing (voiceStateRef s) (average (audioLevelHistoryRef s))"
    then have "crossing (voiceStateRef (clearTimeout h s))
                 (average (audioLevelHistoryRef (clearTimeout h s)))"
      by (simp add: clearTimeout_fields)
    from debounceCallback_crossing [OF this] a
    show "voiceState (timerFired h s) = (if voiceStateRef s = Idle then Listening else Idle)"
      by (simp add: timerFired_def clearTimeout_fields)
  qed
  have hist: "audioLevelHistoryRef (onAudioData level s) = pushLevel level (audioLevelHistoryRef s)"
    using assms(2) by (rule history_onAudioData_active)
  have sched: "stateChangeTimerRef s = None
            \<and> crossing (voiceStateRef s) (average (pushLevel level (audioLevelHistoryRef s)))
          \<longrightarrow> timers (onAudioData level s)
                = timers s @ [(nextHandle s, if voiceStateRef s = Listening then 1500 else 300)]"
  proof
    assume c: "stateChangeTimerRef s = None
            \<and> crossing (voiceStateRef s) (average (pushLevel level (audioLevelHistoryRef s)))"
    with onAudioData_active [OF assms(2), of level, unfolded Let_def]
    have "vad (onAudioData level s) =
        (timers s @ [(nextHandle s, if voiceStateRef s = Listening then 1500 else 300)],
         Some (nextHandle s), pushLevel level (audioLevelHistoryRef s))"
      by simp
    from vad_eqD [OF this]
    show "timers (onAudioData level s)
          = timers s @ [(nextHandle s, if voiceStateRef s = Listening then 1500 else 300)]"
      by simp
  qed
  have sp: "audioManagerRef s' \<and> isInitialized s'
          \<longrightarrow> voiceState (speak words s') = Speaking \<and> voiceStateRef (speak words s') = Speaking"
    by (simp add: speak_def AudioManager_speak_def)
  from fire hist sched sp VoiceMode_onTextRecognized_states [of words s']
  show ?thesis by (intro conjI) simp_all
qed

theorem C1_witness:
  "voiceState staleProcessing = Processing
   \<and> voiceStateRef staleProcessing = Idle
   \<and> timers staleProcessing = [(3, 300)]
   \<and> voiceState (timerFired 3 staleProcessing) = Listening
   \<and> voiceState awaitingResponse = Processing
   \<and> timers awaitingResponse = []
   \<and> audioLevelHistoryRef (onAudioData (Finite (1/2)) awaitingResponse) = [Finite (1/64), Finite (1/2)]
   \<and> timers (onAudioData (Finite (1/2)) awaitingResponse) = [(5, 300)]"
proof -
  note st = staleProcessing_facts
  note aw = awaitingResponse_facts
  have c1: "crossing Idle (average [Finite (1/8)])"
    by (simp add: eval_defs)
  have c2: "crossing Idle (average [Finite (1/64), Finite (1/2)])"
    by (simp add: eval_defs)
  have p: "pushLevel (Finite (1/2)) [Finite (1/64)] = [Finite (1/64), Finite (1/2)]"
    by (simp add: pushLevel_def)
  from C1_processing_left_by_amplitude_logic_before_sync
         [where s = staleProcessing and h = 3, OF st(1)] st c1
  have 1: "voiceState (timerFired 3 staleProcessing) = Listening"
    by simp
  from C1_processing_left_by_amplitude_logic_before_sync
         [where s = awaitingResponse and level = "Finite (1/2)", OF aw(1)] aw c2 p
  have 2: "audioLevelHistoryRef (onAudioData (Finite (1/2)) awaitingResponse)
             = [Finite (1/64), Finite (1/2)]
           \<and> timers (onAudioData (Finite (1/2)) awaitingResponse) = [(5, 300)]"
    by simp
  from 1 2 st aw show ?thesis by simp
qed





section \<open>Binary64 arithmetic: the means the code computes at the thresholds\<close>

text \<open>Levels that \<^verbatim>\<open>analyze\<close> computes. Those of the example sessions are exact.\<close>

lemma normalized_examples:
  "normalized 510 = Finite (1 / 64)"
  "normalized 4080 = Finite (1 / 8)"
  "normalized 8160 = Finite (1 / 4)"
  "normalized 16320 = Finite (1 / 2)"
proof -
  have "round64 (255 / 64) = Finite (255 / 64)"
    using round64_eval [of "1" "255 / 64"]
    by (simp add: pow2_def roundHalfEven_def Let_def)
  moreover have "round64 (1 / 64) = Finite (1 / 64)"
    using round64_eval [of "-6" "1 / 64"]
    by (simp add: pow2_def roundHalfEven_def Let_def)
  ultimately show "normalized 510 = Finite (1 / 64)"
    by (simp add: normalized_def)
  have "round64 (255 / 8) = Finite (255 / 8)"
    using round64_eval [of "4" "255 / 8"]
    by (simp add: pow2_def roundHalfEven_def Let_def)
  moreover have "round64 (1 / 8) = Finite (1 / 8)"
    using round64_eval [of "-3" "1 / 8"]
    by (simp add: pow2_def roundHalfEven_def Let_def)
  ultimately show "normalized 4080 = Finite (1 / 8)"
    by (simp add: normalized_def)
  have "round64 (255 / 4) = Finite (255 / 4)"
    using round64_eval [of "5" "255 / 4"]
    by (simp add: pow2_def roundHalfEven_def Let_def)
  moreover have "round64 (1 / 4) = Finite (1 / 4)"
    using round64_eval [of "-2" "1 / 4"]
    by (simp add: pow2_def roundHalfEven_def Let_def)
  ultimately show "normalized 8160 = Finite (1 / 4)"
    by (simp add: normalized_def)
  have "round64 (255 / 2) = Finite (255 / 2)"
    using round64_eval [of "6" "255 / 2"]
    by (simp add: pow2_def roundHalfEven_def Let_def)
  moreover have "round64 (1 / 2) = Finite (1 / 2)"
    using round64_eval [of "-1" "1 / 2"]
    by (simp add: pow2_def roundHalfEven_def Let_def)
  ultimately show "normalized 16320 = Finite (1 / 2)"
    by (simp add: normalized_def)
qed

text \<open>The window of the levels for the byte sums 4447, 2408, 4507, 2075 and 2883.
  The real mean of the five fractions is exactly 1/10, which is not above 0.10; the
  mean the code computes is \<^verbatim>\<open>0.10000000000000002\<close>, above the threshold, so in idle
  the window crosses.\<close>

lemma normalized_boundary:
  "normalized 4447 = Finite (306793926821639 / 2251799813685248)"
  "normalized 2408 = Finite (5316013677798115 / 72057594037927936)"
  "normalized 4507 = Finite (4974932235431085 / 36028797018963968)"
  "normalized 2075 = Finite (2290433634018083 / 36028797018963968)"
  "normalized 2883 = Finite (6364645943975069 / 72057594037927936)"
proof -
  have "round64 (4447 / 128) = Finite (4447 / 128)"
    using round64_eval [of "5" "4447 / 128"]
    by (simp add: pow2_def roundHalfEven_def Let_def)
  moreover have "round64 (4447 / 32640) = Finite (306793926821639 / 2251799813685248)"
    using round64_eval [of "-3" "4447 / 32640"]
    by (simp add: pow2_def roundHalfEven_def Let_def)
  ultimately show "normalized 4447 = Finite (306793926821639 / 2251799813685248)"
    by (simp add: normalized_def)
  have "round64 (301 / 16) = Finite (301 / 16)"
    using round64_eval [of "4" "301 / 16"]
    by (simp add: pow2_def roundHalfEven_def Let_def)
  moreover have "round64 (301 / 4080) = Finite (5316013677798115 / 72057594037927936)"
    using round64_eval [of "-4" "301 / 4080"]
    by (simp add: pow2_def roundHalfEven_def Let_def)
  ultimately show "normalized 2408 = Finite (5316013677798115 / 72057594037927936)"
    by (simp add: normalized_def)
  have "round64 (4507 / 128) = Finite (4507 / 128)"
    using round64_eval [of "5" "4507 / 128"]
    by (simp add: pow2_def roundHalfEven_def Let_def)
  moreover have "round64 (4507 / 32640) = Finite (4974932235431085 / 36028797018963968)"
    using round64_eval [of "-3" "4507 / 32640"]
    by (simp add: pow2_def roundHalfEven_def Let_def)
  ultimately show "normalized 4507 = Finite (4974932235431085 / 36028797018963968)"
    by (simp add: normalized_def)
  have "round64 (2075 / 128) = Finite (2075 / 128)"
    using round64_eval [of "4" "2075 / 128"]
    by (simp add: pow2_def roundHalfEven_def Let_def)
  moreover have "round64 (415 / 6528) = Finite (2290433634018083 / 36028797018963968)"
    using round64_eval [of "-4" "415 / 6528"]
    by (simp add: pow2_def roundHalfEven_def Let_def)
  ultimately show "normalized 2075 = Finite (2290433634018083 / 36028797018963968)"
    by (simp add: normalized_def)
  have "round64 (2883 / 128) = Finite (2883 / 128)"
    using round64_eval [of "4" "2883 / 128"]
    by (simp add: pow2_def roundHalfEven_def Let_def)
  moreover have "round64 (961 / 10880) = Finite (6364645943975069 / 72057594037927936)"
    using round64_eval [of "-4" "961 / 10880"]
    by (simp add: pow2_def roundHalfEven_def Let_def)
  ultimately show "normalized 2883 = Finite (6364645943975069 / 72057594037927936)"
    by (simp add: normalized_def)
qed

lemma mean_of_boundary_window:
  "average
       [normalized 4447, normalized 2408, normalized 4507, normalized 2075, normalized 2883]
     = Finite (7205759403792795 / 72057594037927936)"
  "crossing Idle (average
       [normalized 4447, normalized 2408, normalized 4507, normalized 2075, normalized 2883])"
proof -
  have a1: "jsAdd (Finite (0)) (Finite (306793926821639 / 2251799813685248)) = Finite (306793926821639 / 2251799813685248)"
    using round64_eval [of "-3" "0 + 306793926821639 / 2251799813685248"]
    by (simp add: pow2_def roundHalfEven_def Let_def)
  have a2: "jsAdd (Finite (306793926821639 / 2251799813685248)) (Finite (5316013677798115 / 72057594037927936)) = Finite (3783354834022641 / 18014398509481984)"
    using round64_eval [of "-3" "306793926821639 / 2251799813685248 + 5316013677798115 / 72057594037927936"]
    by (simp add: pow2_def roundHalfEven_def Let_def)
  have a3: "jsAdd (Finite (3783354834022641 / 18014398509481984)) (Finite (4974932235431085 / 36028797018963968)) = Finite (783852618967273 / 2251799813685248)"
    using round64_eval [of "-2" "3783354834022641 / 18014398509481984 + 4974932235431085 / 36028797018963968"]
    by (simp add: pow2_def roundHalfEven_def Let_def)
  have a4: "jsAdd (Finite (783852618967273 / 2251799813685248)) (Finite (2290433634018083 / 36028797018963968)) = Finite (3708018884373613 / 9007199254740992)"
    using round64_eval [of "-2" "783852618967273 / 2251799813685248 + 2290433634018083 / 36028797018963968"]
    by (simp add: pow2_def roundHalfEven_def Let_def)
  have a5: "jsAdd (Finite (3708018884373613 / 9007199254740992)) (Finite (6364645943975069 / 72057594037927936)) = Finite (4503599627370497 / 9007199254740992)"
    using round64_eval [of "-1" "3708018884373613 / 9007199254740992 + 6364645943975069 / 72057594037927936"]
    by (simp add: pow2_def roundHalfEven_def Let_def)
  have d: "jsDivide (Finite (4503599627370497 / 9007199254740992)) 5 = Finite (7205759403792795 / 72057594037927936)"
    using round64_eval [of "-4" "4503599627370497 / 9007199254740992 / 5"]
    by (simp add: pow2_def roundHalfEven_def Let_def)
  have n: "Suc (Suc (Suc (Suc (Suc 0)))) = 5" by simp
  show m: "average
       [normalized 4447, normalized 2408, normalized 4507, normalized 2075, normalized 2883]
     = Finite (7205759403792795 / 72057594037927936)"
    by (simp add: average_def normalized_boundary a1 a2 a3 a4 a5 del: jsAdd.simps jsDivide.simps)
       (simp only: n d)
  show "crossing Idle (average
       [normalized 4447, normalized 2408, normalized 4507, normalized 2075, normalized 2883])"
    unfolding m by (simp add: crossing_def jsGreater_def ENTER_THRESHOLD_value EXIT_THRESHOLD_value)
qed

text \<open>The same at the other threshold, for the byte sums 284, 685, 653, 1045 and
  2229: the real mean is exactly 3/100, the mean the code computes is
  \<^verbatim>\<open>0.029999999999999992\<close>, below the threshold, so in listening the window crosses.\<close>

lemma normalized_exit_boundary:
  "normalized 284 = Finite (2507886851320041 / 288230376151711744)"
  "normalized 685 = Finite (6048952440683901 / 288230376151711744)"
  "normalized 653 = Finite (1441593410133791 / 72057594037927936)"
  "normalized 1045 = Finite (1153495492794649 / 36028797018963968)"
  "normalized 2229 = Finite (4920844886965115 / 72057594037927936)"
proof -
  have "round64 (71 / 32) = Finite (71 / 32)"
    using round64_eval [of "1" "71 / 32"]
    by (simp add: pow2_def roundHalfEven_def Let_def)
  moreover have "round64 (71 / 8160) = Finite (2507886851320041 / 288230376151711744)"
    using round64_eval [of "-7" "71 / 8160"]
    by (simp add: pow2_def roundHalfEven_def Let_def)
  ultimately show "normalized 284 = Finite (2507886851320041 / 288230376151711744)"
    by (simp add: normalized_def)
  have "round64 (685 / 128) = Finite (685 / 128)"
    using round64_eval [of "2" "685 / 128"]
    by (simp add: pow2_def roundHalfEven_def Let_def)
  moreover have "round64 (137 / 6528) = Finite (6048952440683901 / 288230376151711744)"
    using round64_eval [of "-6" "137 / 6528"]
    by (simp add: pow2_def roundHalfEven_def Let_def)
  ultimately show "normalized 685 = Finite (6048952440683901 / 288230376151711744)"
    by (simp add: normalized_def)
  have "round64 (653 / 128) = Finite (653 / 128)"
    using round64_eval [of "2" "653 / 128"]
    by (simp add: pow2_def roundHalfEven_def Let_def)
  moreover have "round64 (653 / 32640) = Finite (1441593410133791 / 72057594037927936)"
    using round64_eval [of "-6" "653 / 32640"]
    by (simp add: pow2_def roundHalfEven_def Let_def)
  ultimately show "normalized 653 = Finite (1441593410133791 / 72057594037927936)"
    by (simp add: normalized_def)
  have "round64 (1045 / 128) = Finite (1045 / 128)"
    using round64_eval [of "3" "1045 / 128"]
    by (simp add: pow2_def roundHalfEven_def Let_def)
  moreover have "round64 (209 / 6528) = Finite (1153495492794649 / 36028797018963968)"
    using round64_eval [of "-5" "209 / 6528"]
    by (simp add: pow2_def roundHalfEven_def Let_def)
  ultimately show "normalized 1045 = Finite (1153495492794649 / 36028797018963968)"
    by (simp add: normalized_def)
  have "round64 (2229 / 128) = Finite (2229 / 128)"
    using round64_eval [of "4" "2229 / 128"]
    by (simp add: pow2_def roundHalfEven_def Let_def)
  moreover have "round64 (743 / 10880) = Finite (4920844886965115 / 72057594037927936)"
    using round64_eval [of "-4" "743 / 10880"]
    by (simp add: pow2_def roundHalfEven_def Let_def)
  ultimately show "normalized 2229 = Finite (4920844886965115 / 72057594037927936)"
    by (simp add: normalized_def)
qed

lemma mean_of_exit_boundary_window:
  "average
       [normalized 284, normalized 685, normalized 653, normalized 1045, normalized 2229]
     = Finite (4323455642275675 / 144115188075855872)"
  "crossing Listening (average
       [normalized 284, normalized 685, normalized 653, normalized 1045, normalized 2229])"
proof -
  have a1: "jsAdd (Finite (0)) (Finite (2507886851320041 / 288230376151711744)) = Finite (2507886851320041 / 288230376151711744)"
    using round64_eval [of "-7" "0 + 2507886851320041 / 288230376151711744"]
    by (simp add: pow2_def roundHalfEven_def Let_def)
  have a2: "jsAdd (Finite (2507886851320041 / 288230376151711744)) (Finite (6048952440683901 / 288230376151711744)) = Finite (4278419646001971 / 144115188075855872)"
    using round64_eval [of "-6" "2507886851320041 / 288230376151711744 + 6048952440683901 / 288230376151711744"]
    by (simp add: pow2_def roundHalfEven_def Let_def)
  have a3: "jsAdd (Finite (4278419646001971 / 144115188075855872)) (Finite (1441593410133791 / 72057594037927936)) = Finite (7161606466269553 / 144115188075855872)"
    using round64_eval [of "-5" "4278419646001971 / 144115188075855872 + 1441593410133791 / 72057594037927936"]
    by (simp add: pow2_def roundHalfEven_def Let_def)
  have a4: "jsAdd (Finite (7161606466269553 / 144115188075855872)) (Finite (1153495492794649 / 36028797018963968)) = Finite (2943897109362037 / 36028797018963968)"
    using round64_eval [of "-4" "7161606466269553 / 144115188075855872 + 1153495492794649 / 36028797018963968"]
    by (simp add: pow2_def roundHalfEven_def Let_def)
  have a5: "jsAdd (Finite (2943897109362037 / 36028797018963968)) (Finite (4920844886965115 / 72057594037927936)) = Finite (2702159776422297 / 18014398509481984)"
    using round64_eval [of "-3" "2943897109362037 / 36028797018963968 + 4920844886965115 / 72057594037927936"]
    by (simp add: pow2_def roundHalfEven_def Let_def)
  have d: "jsDivide (Finite (2702159776422297 / 18014398509481984)) 5 = Finite (4323455642275675 / 144115188075855872)"
    using round64_eval [of "-6" "2702159776422297 / 18014398509481984 / 5"]
    by (simp add: pow2_def roundHalfEven_def Let_def)
  have n: "Suc (Suc (Suc (Suc (Suc 0)))) = 5" by simp
  show m: "average
       [normalized 284, normalized 685, normalized 653, normalized 1045, normalized 2229]
     = Finite (4323455642275675 / 144115188075855872)"
    by (simp add: average_def normalized_exit_boundary a1 a2 a3 a4 a5 del: jsAdd.simps jsDivide.simps)
       (simp only: n d)
  show "crossing Listening (average
       [normalized 284, normalized 685, normalized 653, normalized 1045, normalized 2229])"
    unfolding m by (simp add: crossing_def jsGreater_def ENTER_THRESHOLD_value EXIT_THRESHOLD_value)
qed

text \<open>Three levels equal to the threshold 0.10 itself: as in the code, where
  \<^verbatim>\<open>(0.1 + 0.1 + 0.1) / 3\<close> is \<^verbatim>\<open>0.10000000000000002\<close>, their mean is above it.\<close>

lemma mean_of_three_tenths:
  "average [ENTER_THRESHOLD, ENTER_THRESHOLD, ENTER_THRESHOLD]
     = Finite (7205759403792795 / 72057594037927936)"
  "jsGreater (average [ENTER_THRESHOLD, ENTER_THRESHOLD, ENTER_THRESHOLD]) ENTER_THRESHOLD"
proof -
  have a1: "jsAdd (Finite (0)) (Finite (3602879701896397 / 36028797018963968)) = Finite (3602879701896397 / 36028797018963968)"
    using round64_eval [of "-4" "0 + 3602879701896397 / 36028797018963968"]
    by (simp add: pow2_def roundHalfEven_def Let_def)
  have a2: "jsAdd (Finite (3602879701896397 / 36028797018963968)) (Finite (3602879701896397 / 36028797018963968)) = Finite (3602879701896397 / 18014398509481984)"
    using round64_eval [of "-3" "3602879701896397 / 36028797018963968 + 3602879701896397 / 36028797018963968"]
    by (simp add: pow2_def roundHalfEven_def Let_def)
  have a3: "jsAdd (Finite (3602879701896397 / 18014398509481984)) (Finite (3602879701896397 / 36028797018963968)) = Finite (1351079888211149 / 4503599627370496)"
    using round64_eval [of "-2" "3602879701896397 / 18014398509481984 + 3602879701896397 / 36028797018963968"]
    by (simp add: pow2_def roundHalfEven_def Let_def)
  have d: "jsDivide (Finite (1351079888211149 / 4503599627370496)) 3 = Finite (7205759403792795 / 72057594037927936)"
    using round64_eval [of "-4" "1351079888211149 / 4503599627370496 / 3"]
    by (simp add: pow2_def roundHalfEven_def Let_def)
  have n: "Suc (Suc (Suc 0)) = 3" by simp
  show m: "average [ENTER_THRESHOLD, ENTER_THRESHOLD, ENTER_THRESHOLD]
     = Finite (7205759403792795 / 72057594037927936)"
    by (simp add: average_def ENTER_THRESHOLD_value a1 a2 a3 del: jsAdd.simps jsDivide.simps)
       (simp only: n d)
  show "jsGreater (average [ENTER_THRESHOLD, ENTER_THRESHOLD, ENTER_THRESHOLD]) ENTER_THRESHOLD"
    unfolding m by (simp add: jsGreater_def ENTER_THRESHOLD_value)
qed

text \<open>So when a timer is pending in idle, the window holds the first four of those
  levels and the fifth arrives, the tick keeps the timer, and the timer commits
  listening when it fires.\<close>

lemma boundary_window_keeps_timer:
  assumes "voiceStateRef s = Idle" and "stateChangeTimerRef s = Some h"
      and "timers s = [(h, 300)]"
      and "audioLevelHistoryRef s
           = [normalized 4447, normalized 2408, normalized 4507, normalized 2075]"
  shows "timers (onAudioData (normalized 2883) s) = [(h, 300)]"
    and "voiceState (timerFired h (onAudioData (normalized 2883) s)) = Listening"
proof -
  let ?s' = "onAudioData (normalized 2883) s"
  let ?w = "[normalized 4447, normalized 2408, normalized 4507, normalized 2075, normalized 2883]"
  have w: "pushLevel (normalized 2883) (audioLevelHistoryRef s) = ?w"
    by (simp add: assms(4) pushLevel_def)
  have act: "voiceStateRef s = Idle \<or> voiceStateRef s = Listening"
    using assms(1) by simp
  have c: "crossing Idle (average ?w)"
    by (rule mean_of_boundary_window(2))
  from onAudioData_active [OF act, of "normalized 2883", unfolded Let_def w] c assms(1,2,3)
  have "vad ?s' = ([(h, 300)], Some h, ?w)"
    by simp
  from vad_eqD [OF this]
  have t: "timers ?s' = [(h, 300)]" and hist: "audioLevelHistoryRef ?s' = ?w"
    by simp_all
  show "timers ?s' = [(h, 300)]" by (rule t)
  have ref: "voiceStateRef ?s' = Idle"
    using assms(1) by (simp add: onAudioData_voiceState)
  have "crossing (voiceStateRef (clearTimeout h ?s'))
          (average (audioLevelHistoryRef (clearTimeout h ?s')))"
    using c by (simp add: clearTimeout_fields ref hist)
  from debounceCallback_crossing [OF this] ref t
  show "voiceState (timerFired h ?s') = Listening"
    by (simp add: timerFired_def clearTimeout_fields)
qed

section \<open>Transcripts\<close>

lemma onTranscript_forwarded:
  assumes "r_isFinal r" and "trim (r_transcript r) \<noteq> []"
      and "r_transcript r \<noteq> lastFinalTranscriptRef s"
  shows "onTranscript cfg r s =
         callOnTextRecognized cfg (r_transcript r)
           (s\<lparr>transcript := r_transcript r, lastFinalTranscriptRef := r_transcript r\<rparr>)"
  using assms by (simp add: onTranscript_def Let_def)

lemma onTranscript_ignored:
  assumes "\<not> r_isFinal r \<or> trim (r_transcript r) = [] \<or> r_transcript r = lastFinalTranscriptRef s"
  shows "onTranscript cfg r s = s\<lparr>transcript := r_transcript r\<rparr>"
  using assms by (auto simp: onTranscript_def Let_def)

lemma lastFinal_onTranscript:
  "lastFinalTranscriptRef (onTranscript cfg r s) =
   (if r_isFinal r \<and> trim (r_transcript r) \<noteq> [] then r_transcript r
    else lastFinalTranscriptRef s)"
  by (simp add: onTranscript_def Let_def callOnTextRecognized_def)

lemma lastFinal_transcripts:
  "lastFinalTranscriptRef (transcripts cfg rs s) = lastNonEmptyFinal (lastFinalTranscriptRef s) rs"
  by (induction rs arbitrary: s) (simp_all add: lastFinal_onTranscript)

lemma trim_js_a: "trim (js ''a'') = js ''a''"
  by (simp add: trim_def js_def isWhiteSpace_def)

lemma trim_js_space: "trim (js '' '') = []"
  by (simp add: trim_def js_def isWhiteSpace_def)

text \<open>What starting to listen leaves alone: the transcript, the retained final
  transcript and the calls made to \<^verbatim>\<open>onTextRecognized\<close> are those of the session
  the AudioManager is given.\<close>

lemma heard_onAudioData:
  "transcript (onAudioData level s) = transcript s
   \<and> lastFinalTranscriptRef (onAudioData level s) = lastFinalTranscriptRef s
   \<and> textRecognizedCalls (onAudioData level s) = textRecognizedCalls s"
  by (simp add: onAudioData_def Let_def setTimeout_def clearTimeout_def updateFrequency_def
      split: option.splits)

lemma heard_analyze:
  "transcript (analyze level s) = transcript s
   \<and> lastFinalTranscriptRef (analyze level s) = lastFinalTranscriptRef s
   \<and> textRecognizedCalls (analyze level s) = textRecognizedCalls s"
  by (simp add: analyze_def Let_def split_beta requestAnimationFrame_def heard_onAudioData)

lemma heard_onErrorCallback:
  "transcript (onErrorCallback cfg m s) = transcript s
   \<and> lastFinalTranscriptRef (onErrorCallback cfg m s) = lastFinalTranscriptRef s
   \<and> textRecognizedCalls (onErrorCallback cfg m s) = textRecognizedCalls s"
  by (simp add: onErrorCallback_def callOnError_def)

lemma heard_initAudioContext:
  "transcript (snd (initAudioContext cfg mic s)) = transcript s
   \<and> lastFinalTranscriptRef (snd (initAudioContext cfg mic s)) = lastFinalTranscriptRef s
   \<and> textRecognizedCalls (snd (initAudioContext cfg mic s)) = textRecognizedCalls s"
  by (cases mic)
     (simp_all add: initAudioContext_def Let_def startAnalyzing_def heard_analyze
        heard_onErrorCallback)

lemma heard_AudioManager_startListening:
  "transcript (snd (AudioManager_startListening cfg lang cont mic s)) = transcript s
   \<and> lastFinalTranscriptRef (snd (AudioManager_startListening cfg lang cont mic s))
       = lastFinalTranscriptRef s
   \<and> textRecognizedCalls (snd (AudioManager_startListening cfg lang cont mic s))
       = textRecognizedCalls s"
proof -
  obtain r s1 where init: "initAudioContext cfg mic s = (r, s1)"
    by (cases "initAudioContext cfg mic s")
  with heard_initAudioContext [of cfg mic s]
  have 1: "transcript s1 = transcript s" "lastFinalTranscriptRef s1 = lastFinalTranscriptRef s"
    "textRecognizedCalls s1 = textRecognizedCalls s"
    by simp_all
  show ?thesis
    using init 1
    by (simp add: AudioManager_startListening_def Let_def recognitionStart_def
        heard_onErrorCallback split: option.splits)
qed

lemma heard_startListening:
  assumes "audioManagerRef s" and "isInitialized s"
  shows "transcript (startListening cfg mic s) = []
       \<and> lastFinalTranscriptRef (startListening cfg mic s) = []
       \<and> textRecognizedCalls (startListening cfg mic s) = textRecognizedCalls s"
proof -
  let ?s1 = "s\<lparr>error := None, voiceState := Idle, voiceStateRef := Idle,
                transcript := [], lastFinalTranscriptRef := []\<rparr>"
  obtain r s2 where am:
    "AudioManager_startListening cfg (languageOr cfg) (continuousOr cfg) mic ?s1 = (r, s2)"
    by (cases "AudioManager_startListening cfg (languageOr cfg) (continuousOr cfg) mic ?s1")
  with heard_AudioManager_startListening [of cfg "languageOr cfg" "continuousOr cfg" mic ?s1]
  have "transcript s2 = []" "lastFinalTranscriptRef s2 = []"
    "textRecognizedCalls s2 = textRecognizedCalls s"
    by simp_all
  with assms am show ?thesis
    by (simp add: startListening_def Let_def split: option.splits)
qed

lemma heardOnce_facts:
  "audioManagerRef heardOnce" "isInitialized heardOnce"
  "lastFinalTranscriptRef heardOnce = js ''organize my tabs''"
  "textRecognizedCalls heardOnce = [js ''organize my tabs'']"
  "started heardOnce = [4]" "recognition heardOnce = Some 4"
proof -
  have q: "audioManagerRef quietStart" "isInitialized quietStart"
    "lastFinalTranscriptRef quietStart = []" "textRecognizedCalls quietStart = []"
    "started quietStart = [4]" "recognition quietStart = Some 4"
    by (simp_all add: quietStart_def eval_defs)
  have "trim (js ''organize my tabs'') \<noteq> []" by (simp add: trim_def js_def isWhiteSpace_def)
  moreover have "js ''organize my tabs'' \<noteq> []" by (simp add: js_def)
  ultimately show "audioManagerRef heardOnce" "isInitialized heardOnce"
    "lastFinalTranscriptRef heardOnce = js ''organize my tabs''"
    "textRecognizedCalls heardOnce = [js ''organize my tabs'']"
    "started heardOnce = [4]" "recognition heardOnce = Some 4"
    using q
    by (simp_all add: heardOnce_def onTranscript_def Let_def final_def
        callOnTextRecognized_def VoiceMode_config_def)
qed

lemma trim_tabs: "trim (js ''organize my tabs'') \<noteq> []"
  by (simp add: trim_def js_def isWhiteSpace_def)

text \<open>
  \<^bold>\<open>C4\<close>, as stated, fails in both directions. In a session of continuous
  recognition, after the final transcripts \<^verbatim>\<open>"a"\<close> and \<^verbatim>\<open>" "\<close>, a final transcript
  \<^verbatim>\<open>"a"\<close> is not empty after trimming and differs from the final transcript
  immediately before it, yet no call of \<^verbatim>\<open>onTextRecognized\<close> is made: a final
  transcript that is empty after trimming is not retained, so the comparison is
  still with \<^verbatim>\<open>"a"\<close>. And after the final transcript \<^verbatim>\<open>"organize my tabs"\<close> and a
  \<^verbatim>\<open>startListening\<close>, the same final transcript is identical to the one immediately
  before it, yet it is forwarded a second time.
\<close>

theorem C4_counterexample:
  "r_isFinal (final (js ''a''))
   \<and> trim (r_transcript (final (js ''a''))) \<noteq> []
   \<and> r_transcript (final (js ''a'')) \<noteq> r_transcript (final (js '' ''))
   \<and> textRecognizedCalls afterBlankFinal = [js ''a'']
   \<and> textRecognizedCalls (onTranscript defaultConfig (final (js ''a'')) afterBlankFinal)
       = textRecognizedCalls afterBlankFinal
   \<and> textRecognizedCalls heardOnce = [js ''organize my tabs'']
   \<and> textRecognizedCalls (onTranscript VoiceMode_config (final (js ''organize my tabs''))
         (startListening VoiceMode_config (Granted (Finite (1/64))) heardOnce))
       = [js ''organize my tabs'', js ''organize my tabs'']"
proof -
  have c: "lastFinalTranscriptRef continuousStart = []" "textRecognizedCalls continuousStart = []"
    by (simp_all add: continuousStart_def defaultConfig_def eval_defs)
  have ne: "js ''a'' \<noteq> []" "js ''a'' \<noteq> js '' ''" by (simp_all add: js_def)
  from c ne have b: "lastFinalTranscriptRef afterBlankFinal = js ''a''"
    "textRecognizedCalls afterBlankFinal = [js ''a'']"
    by (simp_all add: afterBlankFinal_def final_def onTranscript_def callOnTextRecognized_def
        trim_js_a trim_js_space Let_def defaultConfig_def)
  from b ne have blank: "r_isFinal (final (js ''a''))
      \<and> trim (r_transcript (final (js ''a''))) \<noteq> []
      \<and> r_transcript (final (js ''a'')) \<noteq> r_transcript (final (js '' ''))
      \<and> textRecognizedCalls afterBlankFinal = [js ''a'']
      \<and> textRecognizedCalls (onTranscript defaultConfig (final (js ''a'')) afterBlankFinal)
          = textRecognizedCalls afterBlankFinal"
    by (simp add: final_def onTranscript_def trim_js_a Let_def)
  let ?s = "startListening VoiceMode_config (Granted (Finite (1/64))) heardOnce"
  from heard_startListening [OF heardOnce_facts(1,2), of VoiceMode_config "Granted (Finite (1/64))"]
  have "lastFinalTranscriptRef ?s = []"
    and "textRecognizedCalls ?s = [js ''organize my tabs'']"
    by (simp_all add: heardOnce_facts)
  moreover have "js ''organize my tabs'' \<noteq> []" by (simp add: js_def)
  ultimately have again:
    "textRecognizedCalls (onTranscript VoiceMode_config (final (js ''organize my tabs'')) ?s)
     = [js ''organize my tabs'', js ''organize my tabs'']"
    using trim_tabs
    by (simp add: onTranscript_def Let_def final_def callOnTextRecognized_def VoiceMode_config_def)
  from blank again heardOnce_facts(4) show ?thesis by simp
qed

text \<open>
  \<^bold>\<open>C4\<close>, amended. The transcript retained (\<open>lastFinalTranscriptRef\<close>) is the last final
  transcript received that was not empty after trimming, or what it was before when
  there has been none. With the callback configured, a final transcript that is not
  empty after trimming and differs from the retained one is forwarded by exactly
  one call of \<^verbatim>\<open>onTextRecognized\<close> with that text, and becomes the retained one; a
  final transcript equal to the retained one, or empty after trimming, makes no
  call and leaves the retained one as it is.
\<close>

theorem C4_forwarded_unless_equal_to_retained:
  assumes "onTextRecognized cfg"
  shows "(r_isFinal r \<and> trim (r_transcript r) \<noteq> [] \<and> r_transcript r \<noteq> lastFinalTranscriptRef s
            \<longrightarrow> textRecognizedCalls (onTranscript cfg r s) = textRecognizedCalls s @ [r_transcript r]
                \<and> lastFinalTranscriptRef (onTranscript cfg r s) = r_transcript r)
       \<and> (r_isFinal r \<and> (trim (r_transcript r) = [] \<or> r_transcript r = lastFinalTranscriptRef s)
            \<longrightarrow> textRecognizedCalls (onTranscript cfg r s) = textRecognizedCalls s
                \<and> lastFinalTranscriptRef (onTranscript cfg r s) = lastFinalTranscriptRef s)
       \<and> lastFinalTranscriptRef (transcripts cfg rs s)
           = lastNonEmptyFinal (lastFinalTranscriptRef s) rs"
proof (intro conjI impI)
  assume a: "r_isFinal r \<and> trim (r_transcript r) \<noteq> [] \<and> r_transcript r \<noteq> lastFinalTranscriptRef s"
  then have "onTranscript cfg r s =
         callOnTextRecognized cfg (r_transcript r)
           (s\<lparr>transcript := r_transcript r, lastFinalTranscriptRef := r_transcript r\<rparr>)"
    by (simp add: onTranscript_forwarded)
  with assms show "textRecognizedCalls (onTranscript cfg r s) = textRecognizedCalls s @ [r_transcript r]"
    by (simp add: callOnTextRecognized_def)
  from a show "lastFinalTranscriptRef (onTranscript cfg r s) = r_transcript r"
    by (simp add: lastFinal_onTranscript)
next
  assume b: "r_isFinal r \<and> (trim (r_transcript r) = [] \<or> r_transcript r = lastFinalTranscriptRef s)"
  then have "onTranscript cfg r s = s\<lparr>transcript := r_transcript r\<rparr>"
    by (intro onTranscript_ignored) blast
  then show "textRecognizedCalls (onTranscript cfg r s) = textRecognizedCalls s" by simp
  from b show "lastFinalTranscriptRef (onTranscript cfg r s) = lastFinalTranscriptRef s"
    by (auto simp: lastFinal_onTranscript)
next
  show "lastFinalTranscriptRef (transcripts cfg rs s) = lastNonEmptyFinal (lastFinalTranscriptRef s) rs"
    by (rule lastFinal_transcripts)
qed

theorem C4_witness:
  "onTextRecognized VoiceMode_config
   \<and> textRecognizedCalls (onTranscript VoiceMode_config (final (js ''organize my tabs''))
        quietStart) = [js ''organize my tabs'']
   \<and> textRecognizedCalls (onTranscript VoiceMode_config (final (js ''organize my tabs''))
        (onTranscript VoiceMode_config (final (js ''organize my tabs'')) quietStart))
       = [js ''organize my tabs'']"
proof -
  let ?r = "final (js ''organize my tabs'')"
  let ?s1 = "onTranscript VoiceMode_config ?r quietStart"
  have cb: "onTextRecognized VoiceMode_config" by (simp add: VoiceMode_config_def)
  have fin: "r_isFinal ?r" and tx: "r_transcript ?r = js ''organize my tabs''"
    by (simp_all add: final_def)
  have l0: "lastFinalTranscriptRef quietStart = []" and c0: "textRecognizedCalls quietStart = []"
    by (simp_all add: quietStart_def eval_defs)
  have d: "js ''organize my tabs'' \<noteq> []" by (simp add: js_def)
  from C4_forwarded_unless_equal_to_retained [OF cb, where r = ?r and s = quietStart]
       fin trim_tabs d
  have 1: "textRecognizedCalls ?s1 = [js ''organize my tabs'']"
    and 2: "lastFinalTranscriptRef ?s1 = js ''organize my tabs''"
    by (simp_all add: tx l0 c0)
  from C4_forwarded_unless_equal_to_retained [OF cb, where r = ?r and s = ?s1] fin 2
  have "textRecognizedCalls (onTranscript VoiceMode_config ?r ?s1) = textRecognizedCalls ?s1"
    by (simp add: tx)
  with cb 1 show ?thesis by simp
qed

text \<open>
  \<^bold>\<open>C10.\<close> On an initialized hook, \<^verbatim>\<open>startListening\<close> empties the retained final
  transcript and the interim transcript, whatever the microphone answers. So a final
  transcript \<open>t\<close> that is not empty after trimming is forwarded by one call of
  \<^verbatim>\<open>onTextRecognized\<close> when it arrives first after \<^verbatim>\<open>startListening\<close>, also when \<open>t\<close> is
  the transcript that was retained before; without the \<^verbatim>\<open>startListening\<close> in between
  it is suppressed.
\<close>

theorem C10_startListening_resets_retained_transcript:
  assumes "audioManagerRef s" and "isInitialized s"
      and "onTextRecognized cfg" and "trim t \<noteq> []"
  shows "lastFinalTranscriptRef (startListening cfg mic s) = []
       \<and> transcript (startListening cfg mic s) = []
       \<and> textRecognizedCalls (onTranscript cfg (final t) (startListening cfg mic s))
           = textRecognizedCalls s @ [t]
       \<and> (lastFinalTranscriptRef s = t
            \<longrightarrow> textRecognizedCalls (onTranscript cfg (final t) s) = textRecognizedCalls s)"
proof -
  let ?s' = "startListening cfg mic s"
  from heard_startListening [OF assms(1,2), of cfg mic]
  have tr: "transcript ?s' = []" and lf: "lastFinalTranscriptRef ?s' = []"
    and calls: "textRecognizedCalls ?s' = textRecognizedCalls s"
    by simp_all
  from assms(4) have "t \<noteq> []" by (auto simp: trim_def)
  with assms(3,4) lf calls
  have fwd: "textRecognizedCalls (onTranscript cfg (final t) ?s') = textRecognizedCalls s @ [t]"
    by (simp add: onTranscript_def Let_def final_def callOnTextRecognized_def)
  have sup: "lastFinalTranscriptRef s = t
            \<longrightarrow> textRecognizedCalls (onTranscript cfg (final t) s) = textRecognizedCalls s"
    by (simp add: onTranscript_def Let_def final_def)
  from tr lf fwd sup show ?thesis by (intro conjI)
qed

theorem C10_witness:
  "audioManagerRef heardOnce \<and> isInitialized heardOnce
   \<and> onTextRecognized VoiceMode_config
   \<and> trim (js ''organize my tabs'') \<noteq> []
   \<and> lastFinalTranscriptRef heardOnce = js ''organize my tabs''
   \<and> textRecognizedCalls heardOnce = [js ''organize my tabs'']
   \<and> textRecognizedCalls (onTranscript VoiceMode_config (final (js ''organize my tabs'')) heardOnce)
       = [js ''organize my tabs'']
   \<and> textRecognizedCalls (onTranscript VoiceMode_config (final (js ''organize my tabs''))
         (startListening VoiceMode_config (Granted (Finite (1/64))) heardOnce))
       = [js ''organize my tabs'', js ''organize my tabs'']"
proof -
  have cb: "onTextRecognized VoiceMode_config" by (simp add: VoiceMode_config_def)
  note h = heardOnce_facts
  from C10_startListening_resets_retained_transcript
         [OF h(1) h(2) cb trim_tabs, where mic = "Granted (Finite (1/64))"] h cb trim_tabs
  show ?thesis by simp
qed

lemma errorCalls_frameFired: "errorCalls (frameFired h level s) = errorCalls s"
  by (simp add: frameFired_def analyze_def Let_def split_beta requestAnimationFrame_def
      cancelAnimationFrame_def onAudioData_def setTimeout_def clearTimeout_def
      updateFrequency_def split: option.splits)

text \<open>
  \<^bold>\<open>C5.\<close> What the code does when speech synthesis fails. On an initialized hook,
  \<^verbatim>\<open>speak\<close> enters speaking and hands the words to the synthesis. Whatever events the
  session sees after that, when the synthesis fails the catch block of \<^verbatim>\<open>speak\<close>
  leaves the state idle (the React state and the ref), and sets the hook's \<open>error\<close>
  state to \<^verbatim>\<open>Failed to speak\<close>. It does not report the failure to the host: no call
  of \<^verbatim>\<open>onError\<close> is made, with the callback configured or not. The other failures
  are reported to the host: an error of the recognition engine and a microphone that
  is denied each call \<^verbatim>\<open>onError\<close> when it is configured.
\<close>

theorem C5_synthesis_failure_idle_and_not_reported_to_host:
  assumes "audioManagerRef s" and "isInitialized s"
  shows "voiceState (speak words s) = Speaking
       \<and> utterances (speak words s) = [words]
       \<and> voiceState (speakRejected (run cfg evs (speak words s))) = Idle
       \<and> voiceStateRef (speakRejected (run cfg evs (speak words s))) = Idle
       \<and> voiceState (syncVoiceStateRef (speakRejected (run cfg evs (speak words s)))) \<noteq> Speaking
       \<and> error (speakRejected (run cfg evs (speak words s))) = Some ''Failed to speak''
       \<and> errorCalls (speakRejected (run cfg evs (speak words s)))
           = errorCalls (run cfg evs (speak words s))
       \<and> (onError cfg \<and> audioContext s' = None \<longrightarrow>
             errorCalls (onerror cfg e s') = errorCalls s' @ [''Speech recognition error: '' @ e]
           \<and> errorCalls (snd (initAudioContext cfg (Denied e) s'))
               = errorCalls s' @ [''Microphone access denied''])"
  using assms
  by (simp add: speak_def AudioManager_speak_def speakRejected_def syncVoiceStateRef_def
      onerror_def onErrorCallback_def callOnError_def initAudioContext_def Let_def)

theorem C5_witness:
  "audioManagerRef quietStart \<and> isInitialized quietStart \<and> onError VoiceMode_config
   \<and> voiceState (speak (js ''Done.'') quietStart) = Speaking
   \<and> voiceState (speakRejected (run VoiceMode_config [Frame 3 (Finite (1/4)), Effect]
         (speak (js ''Done.'') quietStart))) = Idle
   \<and> error (speakRejected (run VoiceMode_config [Frame 3 (Finite (1/4)), Effect]
         (speak (js ''Done.'') quietStart))) = Some ''Failed to speak''
   \<and> errorCalls (speakRejected (run VoiceMode_config [Frame 3 (Finite (1/4)), Effect]
         (speak (js ''Done.'') quietStart))) = []
   \<and> errorCalls (onerror VoiceMode_config ''network'' (mounted VoiceMode_config True))
       = [''Speech recognition error: network'']"
proof -
  let ?evs = "[Frame 3 (Finite (1/4)), Effect]"
  have q: "audioManagerRef quietStart" "isInitialized quietStart"
    and e: "errorCalls quietStart = []"
    by (simp_all add: quietStart_def eval_defs)
  have cb: "onError VoiceMode_config" by (simp add: VoiceMode_config_def)
  have m: "audioContext (mounted VoiceMode_config True) = None"
    "errorCalls (mounted VoiceMode_config True) = []"
    by (simp_all add: mounted_def mount_def initial_def)
  have "errorCalls (run VoiceMode_config ?evs (speak (js ''Done.'') quietStart))
        = errorCalls quietStart"
    by (simp add: errorCalls_frameFired syncVoiceStateRef_def speak_def AudioManager_speak_def)
  with e have r: "errorCalls (run VoiceMode_config ?evs (speak (js ''Done.'') quietStart)) = []"
    by simp
  from C5_synthesis_failure_idle_and_not_reported_to_host
         [OF q, where words = "js ''Done.''" and cfg = VoiceMode_config and evs = ?evs
            and e = "''network''" and s' = "mounted VoiceMode_config True"] q cb r m
  show ?thesis by simp
qed

section \<open>Recognition: restart and stop\<close>

















section \<open>Failures and explicit transitions\<close>

text \<open>
  \<^bold>\<open>C7.\<close> What the code does when the microphone is denied. On an initialized hook
  without an audio context, \<^verbatim>\<open>startListening\<close> asks for the microphone once; when
  that is denied, the state is idle, no recognition object is created or started,
  no animation frame is requested, and the hook's \<open>error\<close> holds the message of the
  catch block. The host's \<^verbatim>\<open>onError\<close>, however, is called twice: by the catch block
  of \<^verbatim>\<open>initAudioContext\<close> with \<^verbatim>\<open>Microphone access denied\<close>, and again by the catch
  block of \<^verbatim>\<open>AudioManager.startListening\<close> with the error rethrown.
\<close>

theorem C7_microphone_denied_reported_twice:
  assumes "audioManagerRef s" and "isInitialized s" and "audioContext s = None"
      and "onError cfg"
  shows "errorCalls (startListening cfg (Denied e) s)
           = errorCalls s @ [''Microphone access denied'', e]
       \<and> voiceState (startListening cfg (Denied e) s) = Idle
       \<and> voiceStateRef (startListening cfg (Denied e) s) = Idle
       \<and> recognition (startListening cfg (Denied e) s) = recognition s
       \<and> recognizers (startListening cfg (Denied e) s) = recognizers s
       \<and> started (startListening cfg (Denied e) s) = started s
       \<and> frames (startListening cfg (Denied e) s) = frames s
       \<and> animationId (startListening cfg (Denied e) s) = animationId s
       \<and> audioContext (startListening cfg (Denied e) s) = None
       \<and> getUserMediaCalls (startListening cfg (Denied e) s) = getUserMediaCalls s + 1
       \<and> error (startListening cfg (Denied e) s)
           = Some ''Failed to access microphone. Please allow microphone permissions and try again.''"
  using assms
  by (simp add: startListening_def AudioManager_startListening_def initAudioContext_def
      onErrorCallback_def callOnError_def Let_def)

theorem C7_witness:
  "audioManagerRef (mounted VoiceMode_config True)
   \<and> isInitialized (mounted VoiceMode_config True)
   \<and> audioContext (mounted VoiceMode_config True) = None
   \<and> onError VoiceMode_config
   \<and> errorCalls (startListening VoiceMode_config (Denied ''Permission denied'')
        (mounted VoiceMode_config True))
       = [''Microphone access denied'', ''Permission denied'']
   \<and> voiceState (startListening VoiceMode_config (Denied ''Permission denied'')
        (mounted VoiceMode_config True)) = Idle
   \<and> recognition (startListening VoiceMode_config (Denied ''Permission denied'')
        (mounted VoiceMode_config True)) = None
   \<and> frames (startListening VoiceMode_config (Denied ''Permission denied'')
        (mounted VoiceMode_config True)) = []"
proof -
  let ?s = "mounted VoiceMode_config True"
  have m: "audioManagerRef ?s" "isInitialized ?s" "audioContext ?s = None"
    and f: "errorCalls ?s = []" "recognition ?s = None" "frames ?s = []"
    by (simp_all add: mounted_def mount_def initial_def)
  have cb: "onError VoiceMode_config" by (simp add: VoiceMode_config_def)
  from C7_microphone_denied_reported_twice [OF m cb, where e = "''Permission denied''"] m f cb
  show ?thesis by simp
qed

text \<open>
  \<^bold>\<open>C8.\<close> What the code does when the response arrives. The handler of a recognized
  text stops recognition and enters processing. The timeout callback that stands for
  the response, and the continuation after it, are closures of the first render:
  their \<^verbatim>\<open>voiceEnabled\<close> is true whatever the toggle shows now, so the branch for voice
  output disabled (index.tsx, lines 54 to 57) is never taken; the \<^verbatim>\<open>speak\<close> they call
  is that of the first render, which returns at its guard, and so does their
  \<^verbatim>\<open>startListening\<close>. So when the response arrives, with voice output enabled or
  disabled and the microphone enabled or not, nothing changes but the pending flag:
  the state stays processing (also after the sync effect), nothing is spoken, no
  recognition object is current and none is started. The branch that is not taken
  would set the state to idle; it does not call \<^verbatim>\<open>startListening\<close> either.
\<close>

theorem C8_response_leaves_processing_and_recognition_stopped:
  assumes "audioManagerRef s"
  shows "let s1 = VoiceMode_onTextRecognized words s;
             s2 = registered_responseArrived s1;
             s3 = registered_afterSpeak cfg mic s2
         in voiceState s1 = Processing \<and> recognition s1 = None
          \<and> voiceEnabled s1 = voiceEnabled s \<and> micEnabled s1 = micEnabled s
          \<and> s2 = s1
          \<and> s3 = s1\<lparr>pendingResponse := False\<rparr>
          \<and> voiceState s3 = Processing
          \<and> voiceState (syncVoiceStateRef s3) = Processing
          \<and> recognition s3 = None
          \<and> started s3 = started s1
          \<and> (\<forall>h. recognition s = Some h \<longrightarrow> h \<notin> set (started s3))
          \<and> utterances s3 = utterances s
          \<and> (\<not> voiceEnabled_in r \<longrightarrow>
                responseArrived r s1 = s1\<lparr>pendingResponse := False, voiceState := Idle\<rparr>)"
  using assms
  by (simp add: VoiceMode_onTextRecognized_def registered_responseArrived_def
      registered_afterSpeak_def responseArrived_def afterSpeak_def speakIn_def
      startListeningIn_def firstRender_def stopListening_def AudioManager_stopListening_def
      syncVoiceStateRef_def Let_def split: option.splits)

theorem C8_witness:
  "\<not> voiceEnabled voiceOff \<and> micEnabled voiceOff
   \<and> voiceState voiceOff = Processing
   \<and> voiceState (run VoiceMode_config [ResponseArrived, AfterSpeak (Granted (Finite (1/64))), Effect]
        voiceOff) = Processing
   \<and> recognition (run VoiceMode_config [ResponseArrived, AfterSpeak (Granted (Finite (1/64))), Effect]
        voiceOff) = None
   \<and> started (run VoiceMode_config [ResponseArrived, AfterSpeak (Granted (Finite (1/64))), Effect]
        voiceOff) = []"
proof -
  let ?r = "final (js ''organize my tabs'')"
  let ?s = "onTranscript VoiceMode_config ?r (handleToggleVoice quietStart)"
  have q: "audioManagerRef quietStart" "voiceEnabled quietStart" "micEnabled quietStart"
    "started quietStart = [4]" "recognition quietStart = Some 4"
    by (simp_all add: quietStart_def eval_defs)
  then have tg: "audioManagerRef (handleToggleVoice quietStart)"
    "\<not> voiceEnabled (handleToggleVoice quietStart)" "micEnabled (handleToggleVoice quietStart)"
    "started (handleToggleVoice quietStart) = [4]"
    "recognition (handleToggleVoice quietStart) = Some 4"
    by (simp_all add: handleToggleVoice_def Let_def stopSpeaking_def AudioManager_stopSpeaking_def)
  then have s: "audioManagerRef ?s" "\<not> voiceEnabled ?s" "micEnabled ?s"
    "started ?s = [4]" "recognition ?s = Some 4"
    by (simp_all add: onTranscript_def Let_def callOnTextRecognized_def)
  have v: "voiceOff = VoiceMode_onTextRecognized (js ''organize my tabs'') ?s"
    by (simp add: voiceOff_def onresult_def)
  from s have st: "started voiceOff = []"
    unfolding v
    by (simp add: VoiceMode_onTextRecognized_def stopListening_def AudioManager_stopListening_def
        Let_def)
  note C = C8_response_leaves_processing_and_recognition_stopped
         [OF s(1), where words = "js ''organize my tabs''" and cfg = VoiceMode_config
            and mic = "Granted (Finite (1/64))" and r = firstRender, unfolded Let_def, folded v]
  from C have p: "voiceState voiceOff = Processing" and n: "recognition voiceOff = None"
    and e: "voiceEnabled voiceOff = voiceEnabled ?s" "micEnabled voiceOff = micEnabled ?s"
    by simp_all
  from C have 1: "registered_responseArrived voiceOff = voiceOff"
    by (elim conjE)
  from C have "registered_afterSpeak VoiceMode_config (Granted (Finite (1/64)))
                 (registered_responseArrived voiceOff) = voiceOff\<lparr>pendingResponse := False\<rparr>"
    by (elim conjE)
  with 1 have 2: "registered_afterSpeak VoiceMode_config (Granted (Finite (1/64))) voiceOff
                  = voiceOff\<lparr>pendingResponse := False\<rparr>"
    by simp
  from 1 2 have "run VoiceMode_config [ResponseArrived, AfterSpeak (Granted (Finite (1/64))), Effect]
                   voiceOff = syncVoiceStateRef (voiceOff\<lparr>pendingResponse := False\<rparr>)"
    by simp
  with p n e s st show ?thesis
    by (simp add: syncVoiceStateRef_def)
qed

section \<open>Closing\<close>

lemma ctxInv_ctx: "ctx s' = ctx s \<Longrightarrow> ctxInv s' = ctxInv s"
  by (simp add: ctx_def ctxInv_def)

lemma ctxInv_updates:
  "ctxInv (s\<lparr>recognition := a\<rparr>) = ctxInv s"
  "ctxInv (s\<lparr>recognizers := b\<rparr>) = ctxInv s"
  "ctxInv (s\<lparr>nextHandle := c\<rparr>) = ctxInv s"
  "ctxInv (s\<lparr>started := d\<rparr>) = ctxInv s"
  "ctxInv (s\<lparr>error := e\<rparr>) = ctxInv s"
  "ctxInv (s\<lparr>voiceStateRef := v\<rparr>) = ctxInv s"
  "ctxInv (s\<lparr>transcript := t\<rparr>) = ctxInv s"
  "ctxInv (s\<lparr>lastFinalTranscriptRef := t\<rparr>) = ctxInv s"
  "ctxInv (s\<lparr>getUserMediaCalls := n\<rparr>) = ctxInv s"
  "ctxInv (s\<lparr>pendingResponse := p\<rparr>) = ctxInv s"
  "ctxInv (s\<lparr>voiceEnabled := p\<rparr>) = ctxInv s"
  "ctxInv (s\<lparr>micEnabled := p\<rparr>) = ctxInv s"
  by (simp_all add: ctxInv_def)

lemma ctx_onAudioData: "ctx (onAudioData level s) = ctx s"
  by (simp add: onAudioData_def Let_def setTimeout_def clearTimeout_def updateFrequency_def
      ctx_def split: option.splits)

lemma ctx_analyze: "ctx (analyze level s) = ctx s"
proof -
  have "ctx (analyze level s) = ctx s \<or> ctx (analyze level s) = ctx (onAudioData level s)"
    by (simp add: analyze_def Let_def split_beta requestAnimationFrame_def ctx_def)
  then show ?thesis by (auto simp: ctx_onAudioData)
qed

lemma ctx_frameFired: "ctx (frameFired h level s) = ctx s"
proof -
  have "ctx (cancelAnimationFrame h s) = ctx s" by (simp add: cancelAnimationFrame_def ctx_def)
  then show ?thesis by (simp add: frameFired_def ctx_analyze)
qed

lemma ctx_timerFired: "ctx (timerFired h s) = ctx s"
  by (simp add: timerFired_def debounceCallback_def Let_def clearTimeout_def ctx_def)

lemma ctx_onTranscript: "ctx (onTranscript cfg r s) = ctx s"
  by (simp add: onTranscript_def Let_def callOnTextRecognized_def ctx_def)

lemma ctx_onErrorCallback: "ctx (onErrorCallback cfg m s) = ctx s"
  by (simp add: onErrorCallback_def callOnError_def ctx_def)

lemma ctx_onend: "ctx (onend h s) = ctx s"
  by (simp add: onend_def Let_def recognitionStart_def ctx_def split: option.splits)

lemma ctx_stopListening: "ctx (stopListening s) = ctx s"
  by (simp add: stopListening_def AudioManager_stopListening_def ctx_def split: option.splits)

lemma ctx_speak: "ctx (speak t s) = ctx s"
  by (simp add: speak_def AudioManager_speak_def ctx_def)

lemma ctx_simple:
  "ctx (syncVoiceStateRef s) = ctx s"
  "ctx (speakFulfilled cfg s) = ctx s"
  "ctx (speakRejected s) = ctx s"
  "ctx (stopSpeaking s) = ctx s"
  "ctx (initParticleSystem s) = ctx s"
  "ctx (s\<lparr>voiceState := v\<rparr>) = ctx s"
  "ctx (s\<lparr>pendingResponse := b\<rparr>) = ctx s"
  by (simp_all add: syncVoiceStateRef_def speakFulfilled_def callOnSpeechComplete_def
      speakRejected_def stopSpeaking_def AudioManager_stopSpeaking_def initParticleSystem_def
      ctx_def split: option.splits)

lemma ctx_VoiceMode_onTextRecognized: "ctx (VoiceMode_onTextRecognized t s) = ctx s"
proof -
  have "ctx (stopListening (s\<lparr>recognizedText := t\<rparr>)) = ctx s"
    by (simp add: ctx_stopListening) (simp add: ctx_def)
  then show ?thesis by (simp add: VoiceMode_onTextRecognized_def Let_def ctx_def)
qed

lemma ctx_speakIn: "ctx (speakIn r t s) = ctx s"
  by (simp add: speakIn_def AudioManager_speak_def ctx_def)

lemma ctx_responseArrived: "ctx (responseArrived r s) = ctx s"
  by (simp add: responseArrived_def ctx_speakIn) (simp add: ctx_def)

lemma ctx_handleToggleVoice: "ctx (handleToggleVoice s) = ctx s"
  by (simp add: handleToggleVoice_def Let_def stopSpeaking_def AudioManager_stopSpeaking_def ctx_def)

lemmas ctxInv_same =
  ctx_frameFired [THEN ctxInv_ctx] ctx_timerFired [THEN ctxInv_ctx]
  ctx_onTranscript [THEN ctxInv_ctx] ctx_onErrorCallback [THEN ctxInv_ctx]
  ctx_onend [THEN ctxInv_ctx] ctx_stopListening [THEN ctxInv_ctx] ctx_speak [THEN ctxInv_ctx]
  ctx_simple [THEN ctxInv_ctx] ctx_VoiceMode_onTextRecognized [THEN ctxInv_ctx]
  ctx_responseArrived [THEN ctxInv_ctx] ctx_handleToggleVoice [THEN ctxInv_ctx]

lemma ctxInv_initAudioContext:
  assumes "ctxInv s"
  shows "ctxInv (snd (initAudioContext cfg mic s))"
proof (cases "audioContext s \<noteq> None")
  case True
  with assms show ?thesis by (simp add: initAudioContext_def)
next
  case False
  show ?thesis
  proof (cases mic)
    case (Denied e)
    with False assms show ?thesis
      by (simp add: initAudioContext_def Let_def ctxInv_same ctxInv_updates)
  next
    case (Granted level)
    let ?s1 = "s\<lparr>getUserMediaCalls := getUserMediaCalls s + 1\<rparr>"
    let ?s2 = "?s1\<lparr>stream := Some (nextHandle ?s1),
                liveStreams := nextHandle ?s1 # liveStreams ?s1,
                audioContext := Some (nextHandle ?s1 + 1),
                openContexts := (nextHandle ?s1 + 1) # openContexts ?s1,
                analyser := True, microphone := True, micConnected := True,
                frequencyData := True, nextHandle := nextHandle ?s1 + 2\<rparr>"
    from assms have "ctxInv ?s2" by (simp add: ctxInv_def)
    then have "ctxInv (startAnalyzing level ?s2)"
      by (simp add: startAnalyzing_def ctx_analyze [THEN ctxInv_ctx])
    with False Granted show ?thesis by (simp add: initAudioContext_def Let_def)
  qed
qed

lemma ctxInv_AudioManager_startListening:
  assumes "ctxInv s"
  shows "ctxInv (snd (AudioManager_startListening cfg lang cont mic s))"
proof -
  obtain r s1 where init: "initAudioContext cfg mic s = (r, s1)"
    by (cases "initAudioContext cfg mic s")
  with ctxInv_initAudioContext [OF assms, of cfg mic] have inv1: "ctxInv s1" by simp
  from inv1 init show ?thesis
    by (simp add: AudioManager_startListening_def Let_def recognitionStart_def ctxInv_same
        ctxInv_updates split: option.splits)
qed

lemma ctxInv_startListening:
  assumes "ctxInv s"
  shows "ctxInv (startListening cfg mic s)"
proof (cases "\<not> audioManagerRef s \<or> \<not> isInitialized s")
  case True
  with assms show ?thesis by (simp add: startListening_def)
next
  case False
  let ?s1 = "s\<lparr>error := None, voiceState := Idle, voiceStateRef := Idle,
                transcript := [], lastFinalTranscriptRef := []\<rparr>"
  from assms have inv1: "ctxInv ?s1" by (simp add: ctxInv_updates ctxInv_same)
  obtain r s2 where am:
    "AudioManager_startListening cfg (languageOr cfg) (continuousOr cfg) mic ?s1 = (r, s2)"
    by (cases "AudioManager_startListening cfg (languageOr cfg) (continuousOr cfg) mic ?s1")
  with ctxInv_AudioManager_startListening [OF inv1, of cfg "languageOr cfg" "continuousOr cfg" mic]
  have inv2: "ctxInv s2" by simp
  with False am show ?thesis
    by (simp add: startListening_def Let_def ctxInv_updates ctxInv_same split: option.splits)
qed

lemma destroy_released:
  "audioContext (destroy s) = None \<and> \<not> analyser (destroy s) \<and> \<not> microphone (destroy s)
   \<and> recognition (destroy s) = None \<and> \<not> frequencyData (destroy s) \<and> stream (destroy s) = None
   \<and> utterances (destroy s) = [] \<and> animationId (destroy s) = animationId s
   \<and> set_option (animationId s) \<inter> set (frames (destroy s)) = {}"
  by (cases "animationId s")
     (simp_all add: destroy_def Let_def AudioManager_stopListening_def AudioManager_stopSpeaking_def
        cancelAnimationFrame_def closeContext_def stopTracks_def split: option.splits)

lemma destroy_released_idle:
  assumes "audioContext s = None" and "\<not> microphone s" and "recognition s = None"
      and "stream s = None" and "utterances s = []"
      and "set_option (animationId s) \<inter> set (frames s) = {}"
      and "\<not> analyser s" and "\<not> frequencyData s"
  shows "destroy s = s"
proof -
  have f: "(case animationId s of None \<Rightarrow> s | Some h \<Rightarrow> cancelAnimationFrame h s) = s"
    using assms(6) by (cases "animationId s") (simp_all add: cancelAnimationFrame_def)
  have u: "AudioManager_stopSpeaking s = s"
    using assms(5) by (simp add: AudioManager_stopSpeaking_def)
  have l: "AudioManager_stopListening s = s"
    using assms(3) by (simp add: AudioManager_stopListening_def)
  show ?thesis
    unfolding destroy_def Let_def l u f
    using assms by simp
qed

lemma destroy_idempotent: "destroy (destroy s) = destroy s"
  using destroy_released [of s] by (intro destroy_released_idle) simp_all

lemma clearTimeout_absent:
  "h \<notin> fst ` set (timers s) \<Longrightarrow> clearTimeout h s = s"
proof -
  assume "h \<notin> fst ` set (timers s)"
  then have "filter (\<lambda>t. fst t \<noteq> h) (timers s) = timers s"
    by (intro filter_True) auto
  then show ?thesis by (simp add: clearTimeout_def)
qed

lemma cleanup_idempotent: "cleanup (cleanup s) = cleanup s"
proof (cases "stateChangeTimerRef s")
  case None
  then have 1: "cleanup s = destroy s" by (simp add: cleanup_def)
  from vad_destroy [of s] None have "stateChangeTimerRef (destroy s) = None" by (simp add: vad_def)
  then have "cleanup (destroy s) = destroy (destroy s)" by (simp add: cleanup_def)
  with 1 show ?thesis by (simp add: destroy_idempotent)
next
  case (Some h)
  let ?c = "clearTimeout h s"
  from Some have 1: "cleanup s = destroy ?c" by (simp add: cleanup_def)
  from vad_destroy [of ?c] Some
  have r: "stateChangeTimerRef (destroy ?c) = Some h"
    and t: "timers (destroy ?c) = filter (\<lambda>t. fst t \<noteq> h) (timers s)"
    by (simp_all add: vad_def clearTimeout_fields)
  from t have "h \<notin> fst ` set (timers (destroy ?c))" by auto
  then have "clearTimeout h (destroy ?c) = destroy ?c" by (rule clearTimeout_absent)
  with r have "cleanup (destroy ?c) = destroy (destroy ?c)" by (simp add: cleanup_def)
  with 1 show ?thesis by (simp add: destroy_idempotent)
qed

lemma handleClose_idempotent: "handleClose (handleClose s) = handleClose s"
  by (cases "recognition s")
     (simp_all add: handleClose_def stopSpeaking_def stopListening_def
        AudioManager_stopSpeaking_def AudioManager_stopListening_def)

lemma analyze_destroyed: "analyze level (destroy s) = destroy s"
  using destroy_released [of s] by (simp add: analyze_def)

lemma ctxInv_destroy: "ctxInv s \<Longrightarrow> ctxInv (destroy s)"
  by (cases "audioContext s")
     (simp_all add: ctxInv_def destroy_def Let_def AudioManager_stopListening_def
        AudioManager_stopSpeaking_def cancelAnimationFrame_def closeContext_def stopTracks_def
        split: option.splits)

lemma ctxInv_cleanup: "ctxInv s \<Longrightarrow> ctxInv (cleanup s)"
proof -
  assume "ctxInv s"
  then have "ctxInv (case stateChangeTimerRef s of None \<Rightarrow> s | Some h \<Rightarrow> clearTimeout h s)"
    by (simp add: ctxInv_def clearTimeout_def split: option.splits)
  then show ?thesis unfolding cleanup_def by (rule ctxInv_destroy)
qed

lemma ctxInv_startListeningIn:
  assumes "ctxInv s"
  shows "ctxInv (startListeningIn r cfg mic s)"
proof (cases "\<not> audioManagerRef s \<or> \<not> isInitialized_in r")
  case True
  with assms show ?thesis by (simp add: startListeningIn_def)
next
  case False
  let ?s1 = "s\<lparr>error := None, voiceState := Idle, voiceStateRef := Idle,
                transcript := [], lastFinalTranscriptRef := []\<rparr>"
  from assms have inv1: "ctxInv ?s1" by (simp add: ctxInv_updates ctxInv_same)
  obtain e s2 where am:
    "AudioManager_startListening cfg (languageOr cfg) (continuousOr cfg) mic ?s1 = (e, s2)"
    by (cases "AudioManager_startListening cfg (languageOr cfg) (continuousOr cfg) mic ?s1")
  with ctxInv_AudioManager_startListening [OF inv1, of cfg "languageOr cfg" "continuousOr cfg" mic]
  have inv2: "ctxInv s2" by simp
  with False am show ?thesis
    by (simp add: startListeningIn_def Let_def ctxInv_updates ctxInv_same split: option.splits)
qed

lemma ctxInv_step: "ctxInv s \<Longrightarrow> ctxInv (step cfg e s)"
  by (cases e)
     (simp_all add: ctxInv_same ctxInv_updates ctxInv_startListening ctxInv_startListeningIn
        ctxInv_cleanup afterSpeak_def VoiceMode_onSpeechComplete_def handleToggleMic_def Let_def
        onresult_def onerror_def registered_responseArrived_def registered_afterSpeak_def)

lemma ctxInv_run: "ctxInv s \<Longrightarrow> ctxInv (run cfg evs s)"
  by (induction evs arbitrary: s) (simp_all add: ctxInv_step)

lemma ctxInv_mounted: "ctxInv (mounted cfg supported)"
  by (simp add: mounted_def mount_def initial_def callOnError_def ctxInv_def)

text \<open>
  \<^bold>\<open>C9.\<close> Closing twice is closing once: \<^verbatim>\<open>AudioManager.destroy\<close>, the cleanup of the
  hook and the close button of the component each leave, when run a second time,
  the session (the browser's resources included) exactly as the first run left it.
  In particular the second \<^verbatim>\<open>destroy\<close> stops no track, closes no context and raises
  no error; its two calls that are not guarded, \<^verbatim>\<open>synthesis.cancel()\<close> and
  \<^verbatim>\<open>cancelAnimationFrame\<close> of the handle kept, find nothing to cancel. After
  \<^verbatim>\<open>destroy\<close> the analyser, the stream and the recognition object are released, the
  frame of the analysis loop is cancelled and a run of \<^verbatim>\<open>analyze\<close> does nothing; and
  in every session neither call raises an error.
\<close>

theorem C9_closing_twice_is_closing_once:
  "destroy (destroy s) = destroy s
   \<and> cleanup (cleanup s) = cleanup s
   \<and> handleClose (handleClose s) = handleClose s
   \<and> \<not> analyser (destroy s) \<and> stream (destroy s) = None \<and> audioContext (destroy s) = None
   \<and> recognition (destroy s) = None
   \<and> set_option (animationId s) \<inter> set (frames (destroy s)) = {}
   \<and> analyze level (destroy s) = destroy s
   \<and> unhandled (destroy (run cfg evs (mounted cfg supported))) = []
   \<and> unhandled (destroy (destroy (run cfg evs (mounted cfg supported)))) = []"
proof -
  have "ctxInv (destroy (run cfg evs (mounted cfg supported)))"
    by (intro ctxInv_destroy ctxInv_run ctxInv_mounted)
  then have "unhandled (destroy (run cfg evs (mounted cfg supported))) = []"
    by (simp add: ctxInv_def)
  then show ?thesis
    using destroy_released [of s]
    by (simp add: destroy_idempotent cleanup_idempotent handleClose_idempotent analyze_destroyed)
qed

theorem C9_witness:
  "frames quietStart = [3] \<and> liveStreams quietStart = [1] \<and> openContexts quietStart = [2]
   \<and> started quietStart = [4]
   \<and> frames (destroy quietStart) = [] \<and> liveStreams (destroy quietStart) = []
   \<and> openContexts (destroy quietStart) = [] \<and> started (destroy quietStart) = []
   \<and> unhandled (destroy quietStart) = []
   \<and> destroy (destroy quietStart) = destroy quietStart"
proof -
  have q: "frames quietStart = [3]" "liveStreams quietStart = [1]" "openContexts quietStart = [2]"
    "started quietStart = [4]" "animationId quietStart = Some 3" "stream quietStart = Some 1"
    "audioContext quietStart = Some 2" "recognition quietStart = Some 4"
    "microphone quietStart" "unhandled quietStart = []"
    by (simp_all add: quietStart_def eval_defs)
  then have d: "frames (destroy quietStart) = []" "liveStreams (destroy quietStart) = []"
    "openContexts (destroy quietStart) = []" "started (destroy quietStart) = []"
    "unhandled (destroy quietStart) = []"
    by (simp_all add: destroy_def Let_def AudioManager_stopListening_def
        AudioManager_stopSpeaking_def cancelAnimationFrame_def closeContext_def stopTracks_def)
  from C9_closing_twice_is_closing_once [where s = quietStart] q d
  show ?thesis by simp
qed

end
